theory Spec2Isabelle
  imports Main "HOL-Library.Word"
begin

section \<open>The command-line codec of the token-based platform\<close>

text \<open>
  \<^verbatim>\<open>src/windows/main.c\<close> works on wide strings. A \<^verbatim>\<open>WCHAR\<close> is a 16-bit code
  unit; a NUL-terminated wide string is modelled by the list of the code units that
  precede its terminator. The four characters the codec looks at are
  \<^verbatim>\<open>L' '\<close> = 32, \<^verbatim>\<open>L'\t'\<close> = 9, \<^verbatim>\<open>L'"'\<close> = 34 and \<^verbatim>\<open>L'\\'\<close> = 92.
\<close>

type_synonym wchar = "16 word"
type_synonym wstring = "wchar list"

abbreviation SPACE :: wchar where "SPACE \<equiv> 32"
abbreviation TAB :: wchar where "TAB \<equiv> 9"
abbreviation DQUOTE :: wchar where "DQUOTE \<equiv> 34"
abbreviation BACKSLASH :: wchar where "BACKSLASH \<equiv> 92"

text \<open>
  \<^verbatim>\<open>build_command_line\<close>, the test for quoting (lines 147-158 and again 195-206): an
  empty argument is quoted; otherwise the argument is scanned for a space, a tab or a
  double quote.
\<close>

fun scan_special :: "wstring \<Rightarrow> bool" where
  "scan_special [] = False"
| "scan_special (c # cs) =
     (if c = SPACE \<or> c = TAB \<or> c = DQUOTE then True else scan_special cs)"

definition needsQuoting :: "wstring \<Rightarrow> bool" where
  "needsQuoting arg = (if arg = [] then True else scan_special arg)"

text \<open>
  The first pass (lines 160-179) counts the code units one argument needs. The loop
  variable \<^verbatim>\<open>numBackslashes\<close> is the first parameter; the result is what the loop
  adds to \<^verbatim>\<open>totalLen\<close>, with the doubled trailing backslashes of line 176.
\<close>

fun count_quoted :: "nat \<Rightarrow> wstring \<Rightarrow> nat" where
  "count_quoted numBackslashes [] = numBackslashes"
| "count_quoted numBackslashes (c # cs) =
     (if c = BACKSLASH then 1 + count_quoted (numBackslashes + 1) cs
      else if c = DQUOTE then (numBackslashes + 1) + 1 + count_quoted 0 cs
      else 1 + count_quoted 0 cs)"

definition count_arg :: "wstring \<Rightarrow> nat" where
  "count_arg arg = (if needsQuoting arg then 2 + count_quoted 0 arg else length arg)"

fun count_args :: "wstring list \<Rightarrow> nat" where
  "count_args [] = 0"
| "count_args (arg # rest) =
     count_arg arg + (if rest \<noteq> [] then 1 else 0) + count_args rest"

definition totalLen :: "wstring list \<Rightarrow> nat" where
  "totalLen argv = count_args argv + 1"

text \<open>
  The second pass (lines 208-235) writes the argument. \<^verbatim>\<open>emit_quoted\<close> is the loop of
  lines 211-226 followed by lines 228-230: the doubled trailing backslashes and the
  closing quote. The opening quote of line 209 is written by \<^verbatim>\<open>emit_arg\<close>.
\<close>

fun emit_quoted :: "nat \<Rightarrow> wstring \<Rightarrow> wstring" where
  "emit_quoted numBackslashes [] = replicate numBackslashes BACKSLASH @ [DQUOTE]"
| "emit_quoted numBackslashes (c # cs) =
     (if c = BACKSLASH then BACKSLASH # emit_quoted (numBackslashes + 1) cs
      else if c = DQUOTE then
        replicate numBackslashes BACKSLASH @ [BACKSLASH, DQUOTE] @ emit_quoted 0 cs
      else c # emit_quoted 0 cs)"

definition emit_arg :: "wstring \<Rightarrow> wstring" where
  "emit_arg arg = (if needsQuoting arg then DQUOTE # emit_quoted 0 arg else arg)"

text \<open>
  The loop over the arguments (lines 193-239): a space follows every argument but the
  last (\<^verbatim>\<open>i < argc - 1\<close>).
\<close>

fun emit_args :: "wstring list \<Rightarrow> wstring" where
  "emit_args [] = []"
| "emit_args (arg # rest) =
     emit_arg arg @ (if rest \<noteq> [] then [SPACE] else []) @ emit_args rest"

text \<open>
  \<^verbatim>\<open>build_command_line\<close> returns \<^verbatim>\<open>NULL\<close> when \<^verbatim>\<open>malloc\<close> fails (line 188); whether the
  allocation succeeds is the first parameter.
\<close>

definition build_command_line :: "bool \<Rightarrow> wstring list \<Rightarrow> wstring option" where
  "build_command_line malloc_ok argv = (if malloc_ok then Some (emit_args argv) else None)"

text \<open>
  Modelled from the spec: the operating system's routine that splits a command line
  into arguments. The repository calls on it and does not contain it; it is written
  from the rules that section 4.4 of the specification and the comment above
  \<^verbatim>\<open>build_command_line\<close> (lines 132-139) state for it, applied to every argument alike:
  \<^item> spaces and tabs outside quotes separate arguments;
  \<^item> \<open>2n\<close> backslashes followed by a double quote give \<open>n\<close> backslashes, and the
    quote opens or closes a quoted region;
  \<^item> \<open>2n + 1\<close> backslashes followed by a double quote give \<open>n\<close> backslashes and a
    literal double quote;
  \<^item> backslashes not followed by a double quote are literal.

  \<^verbatim>\<open>split_arg inq n cur s\<close> reads one argument: \<open>inq\<close> says whether a quoted region
  is open, \<open>n\<close> counts the backslashes read and not yet resolved, \<open>cur\<close> is the
  argument read so far. \<^verbatim>\<open>split_skip\<close> passes over the separators between arguments.
\<close>

function split_arg :: "bool \<Rightarrow> nat \<Rightarrow> wstring \<Rightarrow> wstring \<Rightarrow> wstring list"
  and split_skip :: "wstring \<Rightarrow> wstring list" where
  "split_arg inq n cur [] = [cur @ replicate n BACKSLASH]"
| "split_arg inq n cur (c # cs) =
     (if c = BACKSLASH then split_arg inq (n + 1) cur cs
      else if c = DQUOTE then
        (if even n then split_arg (\<not> inq) 0 (cur @ replicate (n div 2) BACKSLASH) cs
         else split_arg inq 0 (cur @ replicate (n div 2) BACKSLASH @ [DQUOTE]) cs)
      else if (c = SPACE \<or> c = TAB) \<and> \<not> inq then
        (cur @ replicate n BACKSLASH) # split_skip cs
      else split_arg inq 0 (cur @ replicate n BACKSLASH @ [c]) cs)"
| "split_skip [] = []"
| "split_skip (c # cs) =
     (if c = SPACE \<or> c = TAB then split_skip cs else split_arg False 0 [] (c # cs))"
  by pat_completeness auto
termination
  by (relation "measure (\<lambda>x. case x of Inl (inq, n, cur, s) \<Rightarrow> 2 * length s
                                     | Inr s \<Rightarrow> 2 * length s + 1)") auto

definition split :: "wstring \<Rightarrow> wstring list" where
  "split s = split_skip s"


section \<open>Exit codes\<close>

text \<open>
  The \<^verbatim>\<open>#define\<close>s of both programs (\<^verbatim>\<open>src/macos/main.c\<close> lines 28-32,
  \<^verbatim>\<open>src/windows/main.c\<close> lines 32-37). \<^verbatim>\<open>EXIT_NO_SESSION\<close> has the same name and
  value in both.
\<close>

abbreviation EXIT_GENERAL :: int where "EXIT_GENERAL \<equiv> 1"
abbreviation EXIT_NO_SESSION :: int where "EXIT_NO_SESSION \<equiv> 2"
abbreviation EXIT_PRIV_DROP :: int where "EXIT_PRIV_DROP \<equiv> 3"
abbreviation EXIT_EXEC_FAIL :: int where "EXIT_EXEC_FAIL \<equiv> 4"
abbreviation EXIT_USAGE :: int where "EXIT_USAGE \<equiv> 5"

abbreviation EXIT_SUCCESS_CODE :: int where "EXIT_SUCCESS_CODE \<equiv> 0"
abbreviation EXIT_GENERAL_FAILURE :: int where "EXIT_GENERAL_FAILURE \<equiv> 1"
abbreviation EXIT_TOKEN_FAILURE :: int where "EXIT_TOKEN_FAILURE \<equiv> 3"
abbreviation EXIT_PROCESS_FAILURE :: int where "EXIT_PROCESS_FAILURE \<equiv> 4"
abbreviation EXIT_USAGE_ERROR :: int where "EXIT_USAGE_ERROR \<equiv> 5"

section \<open>The credential-syscall platform: \<^verbatim>\<open>src/macos/main.c\<close>\<close>

type_synonym uid_t = "32 word"
type_synonym gid_t = "32 word"

text \<open>The fields of \<^verbatim>\<open>struct passwd\<close> that the program reads.\<close>

record passwd =
  pw_name :: string
  pw_uid :: uid_t
  pw_gid :: gid_t
  pw_dir :: string
  pw_shell :: string

text \<open>
  The process environment is the list of its name/value pairs. \<^verbatim>\<open>setenv\<close> with a
  non-zero \<^verbatim>\<open>overwrite\<close> replaces the value of a name that is present and appends the
  pair otherwise; \<^verbatim>\<open>getenv\<close> reads the first pair with the name.
\<close>

type_synonym environment = "(string \<times> string) list"

fun setenv :: "string \<Rightarrow> string \<Rightarrow> environment \<Rightarrow> environment" where
  "setenv name val [] = [(name, val)]"
| "setenv name val ((k, v) # e) =
     (if k = name then (name, val) # e else (k, v) # setenv name val e)"

definition getenv :: "environment \<Rightarrow> string \<Rightarrow> string option" where
  "getenv e name = map_of e name"

text \<open>
  What \<^verbatim>\<open>waitpid\<close> stores in \<^verbatim>\<open>status\<close>, as the macros of \<^verbatim>\<open>sys/wait.h\<close> read it:
  \<^verbatim>\<open>WIFEXITED\<close> with \<^verbatim>\<open>WEXITSTATUS\<close> (an 8-bit value, 0 to 255), \<^verbatim>\<open>WIFSIGNALED\<close>
  with \<^verbatim>\<open>WTERMSIG\<close> (a signal number, at least 1 and below 127), or neither.
  One call of \<^verbatim>\<open>waitpid\<close> is interrupted (\<^verbatim>\<open>EINTR\<close>), fails with another error, or
  delivers a status.
\<close>

datatype wait_status = Exited nat | Signaled nat | Neither

datatype wait_ret = Interrupted | WaitError | Status wait_status

text \<open>
  The operating system as the program meets it: what each call returns when the
  program reaches it. Every call site is reached at most once in a run, except
  \<^verbatim>\<open>waitpid\<close>, whose successive returns are a list.
\<close>

datatype console = NoConsoleUser | ConsoleUser "string option" uid_t gid_t

record mac_world =
  getuid_ret :: uid_t
  console_user :: console
  self_path :: "string option"
  calloc_ok :: bool
  getpwuid_ret :: "uid_t \<Rightarrow> passwd option"
  initgroups_ret :: int
  setgid_ret :: int
  setuid_ret :: int
  regain_root_ret :: int
  environ :: environment
  fork_ok :: bool
  execvp_ok :: bool
  waitpid_rets :: "wait_ret list"

text \<open>
  In \<^verbatim>\<open>console_user\<close>, \<^verbatim>\<open>NoConsoleUser\<close> is the \<^verbatim>\<open>NULL\<close> of
  \<^verbatim>\<open>SCDynamicStoreCopyConsoleUser\<close>; otherwise the string is what
  \<^verbatim>\<open>CFStringGetCString\<close> copies into \<^verbatim>\<open>username_buf\<close>, \<open>None\<close> when it reports
  failure. \<^verbatim>\<open>regain_root_ret\<close> is the return value of the verifying \<^verbatim>\<open>setuid(0)\<close> of
  line 199. \<^verbatim>\<open>fork_ok\<close> says whether \<^verbatim>\<open>fork\<close> returns a process id to the parent;
  \<^verbatim>\<open>execvp_ok\<close> whether the \<^verbatim>\<open>execvp\<close> of line 336 replaces the image.

  The calls a run makes, in order. \<^verbatim>\<open>Spawn\<close> is a successful \<^verbatim>\<open>fork\<close> whose child calls
  \<^verbatim>\<open>execvp\<close> with the file, argument vector and environment given (the child exits
  with \<^verbatim>\<open>EXIT_EXEC_FAIL\<close> when that fails, which the parent sees as its status);
  \<^verbatim>\<open>Execvp\<close> is \<^verbatim>\<open>execvp\<close> called by the program itself. Diagnostics written to
  \<^verbatim>\<open>stderr\<close> are not modelled.
\<close>

datatype mac_action =
    GetUid
  | CopyConsoleUser
  | GetSelfPath
  | GetPwUid uid_t
  | InitGroups string gid_t
  | SetGid gid_t
  | SetUid uid_t
  | ForkFailed
  | Spawn string "string list" environment
  | Execvp string "string list" environment
  | WaitPid

text \<open>
  How a run ends: \<^verbatim>\<open>main\<close> returns a code, or the image is replaced by the command
  (then the command's exit status is the status of the process), or the program
  stays blocked in \<^verbatim>\<open>waitpid\<close>.
\<close>

datatype mac_outcome =
    Exit int
  | Replaced string "string list" environment
  | Blocked

type_synonym mac_result = "mac_outcome \<times> mac_action list"

subsection \<open>Flags (lines 225-248)\<close>

datatype parsed = Help | NoCommand | Command bool bool string "string list"

fun parse_flags :: "bool \<Rightarrow> bool \<Rightarrow> string list \<Rightarrow> parsed" where
  "parse_flags flag_wait flag_session [] = NoCommand"
| "parse_flags flag_wait flag_session (a # rest) =
     (if a = ''--wait'' then parse_flags True flag_session rest
      else if a = ''--session'' then parse_flags flag_wait True rest
      else if a = ''--help'' \<or> a = ''-h'' then Help
      else Command flag_wait flag_session a rest)"

subsection \<open>Waiting for a child (lines 148-160 and 317-332)\<close>

text \<open>
  The loop \<^verbatim>\<open>while (waitpid(pid, &status, 0) == -1)\<close>: it goes round on \<^verbatim>\<open>EINTR\<close>,
  returns \<^verbatim>\<open>EXIT_GENERAL\<close> on another error and leaves with the status otherwise.
  \<open>None\<close>: no call ever delivers, the program stays blocked.
\<close>

fun waitpid_loop :: "wait_ret list \<Rightarrow> (int + wait_status) option" where
  "waitpid_loop [] = None"
| "waitpid_loop (Interrupted # rs) = waitpid_loop rs"
| "waitpid_loop (WaitError # rs) = Some (Inl EXIT_GENERAL)"
| "waitpid_loop (Status st # rs) = Some (Inr st)"

text \<open>The mapping of the status to the return value (lines 156-160 and 325-332).\<close>

fun status_code :: "wait_status \<Rightarrow> int" where
  "status_code (Exited code) = int code"
| "status_code (Signaled sig) = 128 + int sig"
| "status_code Neither = EXIT_GENERAL"

definition wait_child :: "wait_ret list \<Rightarrow> mac_outcome" where
  "wait_child rs =
     (case waitpid_loop rs of
        None \<Rightarrow> Blocked
      | Some (Inl code) \<Rightarrow> Exit code
      | Some (Inr st) \<Rightarrow> Exit (status_code st))"

subsection \<open>\<^verbatim>\<open>handle_session\<close> (lines 89-161)\<close>

text \<open>\<^verbatim>\<open>snprintf(uid_str, sizeof(uid_str), "%u", (unsigned)uid)\<close>: the decimal digits.\<close>

definition digit_char :: "nat \<Rightarrow> char" where
  "digit_char d = ''0123456789'' ! d"

fun decimal :: "nat \<Rightarrow> string" where
  "decimal n = (if n < 10 then [digit_char n] else decimal (n div 10) @ [digit_char (n mod 10)])"

definition handle_session :: "mac_world \<Rightarrow> uid_t \<Rightarrow> bool \<Rightarrow> string list \<Rightarrow> mac_result" where
  "handle_session w uid flag_wait cmd_argv =
     (case self_path w of
        None \<Rightarrow> (Exit EXIT_GENERAL, [GetSelfPath])
      | Some self \<Rightarrow>
          let uid_str = decimal (unat uid) in
          if \<not> calloc_ok w then (Exit EXIT_GENERAL, [GetSelfPath])
          else
            let args = [''launchctl'', ''asuser'', uid_str, self]
                       @ (if flag_wait then [''--wait''] else [])
                       @ cmd_argv in
            if \<not> fork_ok w then (Exit EXIT_EXEC_FAIL, [GetSelfPath, ForkFailed])
            else (wait_child (waitpid_rets w),
                  [GetSelfPath, Spawn ''launchctl'' args (environ w), WaitPid]))"

subsection \<open>\<^verbatim>\<open>drop_privileges\<close> (lines 173-206)\<close>

definition drop_privileges :: "mac_world \<Rightarrow> passwd \<Rightarrow> int \<times> mac_action list" where
  "drop_privileges w pw =
     (if initgroups_ret w \<noteq> 0 then (-1, [InitGroups (pw_name pw) (pw_gid pw)])
      else if setgid_ret w \<noteq> 0 then
        (-1, [InitGroups (pw_name pw) (pw_gid pw), SetGid (pw_gid pw)])
      else if setuid_ret w \<noteq> 0 then
        (-1, [InitGroups (pw_name pw) (pw_gid pw), SetGid (pw_gid pw), SetUid (pw_uid pw)])
      else if regain_root_ret w = 0 then
        (-1, [InitGroups (pw_name pw) (pw_gid pw), SetGid (pw_gid pw), SetUid (pw_uid pw),
              SetUid 0])
      else
        (0, [InitGroups (pw_name pw) (pw_gid pw), SetGid (pw_gid pw), SetUid (pw_uid pw),
             SetUid 0]))"

subsection \<open>\<^verbatim>\<open>setup_environment\<close> (lines 211-218)\<close>

definition DEFAULT_PATH :: string where
  "DEFAULT_PATH = ''/usr/local/bin:/usr/bin:/bin:/usr/sbin:/sbin''"

definition setup_environment :: "passwd \<Rightarrow> environment \<Rightarrow> environment" where
  "setup_environment pw e =
     setenv ''PATH'' DEFAULT_PATH
       (setenv ''SHELL'' (pw_shell pw)
         (setenv ''LOGNAME'' (pw_name pw)
           (setenv ''USER'' (pw_name pw)
             (setenv ''HOME'' (pw_dir pw) e))))"

subsection \<open>\<^verbatim>\<open>main\<close> (lines 220-339)\<close>

text \<open>
  \<^verbatim>\<open>launch\<close> is the part of \<^verbatim>\<open>main\<close> after the environment is set (lines 299-338):
  with \<^verbatim>\<open>--wait\<close>, fork, exec in the child and wait; without, \<^verbatim>\<open>execvp\<close> in place.
\<close>

definition launch :: "mac_world \<Rightarrow> bool \<Rightarrow> string \<Rightarrow> string list \<Rightarrow> environment \<Rightarrow> mac_result" where
  "launch w flag_wait cmd args e =
     (if flag_wait then
        (if \<not> fork_ok w then (Exit EXIT_EXEC_FAIL, [ForkFailed])
         else (wait_child (waitpid_rets w), [Spawn cmd (cmd # args) e, WaitPid]))
      else if execvp_ok w then (Replaced cmd (cmd # args) e, [Execvp cmd (cmd # args) e])
      else (Exit EXIT_EXEC_FAIL, [Execvp cmd (cmd # args) e]))"

text \<open>A result of a later part of a run, after the calls \<open>pre\<close> made before it.\<close>

definition after :: "'a list \<Rightarrow> 'b \<times> 'a list \<Rightarrow> 'b \<times> 'a list" where
  "after pre r = (fst r, pre @ snd r)"

definition main :: "mac_world \<Rightarrow> string list \<Rightarrow> mac_result" where
  "main w argv =
     (case parse_flags False False (drop 1 argv) of
        Help \<Rightarrow> (Exit 0, [])
      | NoCommand \<Rightarrow> (Exit EXIT_USAGE, [])
      | Command flag_wait flag_session cmd args \<Rightarrow>
          if getuid_ret w \<noteq> 0 then (Exit EXIT_GENERAL, [GetUid])
          else
            (case console_user w of
               NoConsoleUser \<Rightarrow> (Exit EXIT_NO_SESSION, [GetUid, CopyConsoleUser])
             | ConsoleUser username uid gid \<Rightarrow>
                 if username = None \<or> username = Some ''loginwindow'' then
                   (Exit EXIT_NO_SESSION, [GetUid, CopyConsoleUser])
                 else if flag_session then
                   after [GetUid, CopyConsoleUser]
                     (handle_session w uid flag_wait (cmd # args))
                 else
                   (case getpwuid_ret w uid of
                      None \<Rightarrow> (Exit EXIT_GENERAL, [GetUid, CopyConsoleUser, GetPwUid uid])
                    | Some pw \<Rightarrow>
                        let dp = drop_privileges w pw in
                        if fst dp \<noteq> 0 then
                          (Exit EXIT_PRIV_DROP, [GetUid, CopyConsoleUser, GetPwUid uid] @ snd dp)
                        else
                          after ([GetUid, CopyConsoleUser, GetPwUid uid] @ snd dp)
                            (launch w flag_wait cmd args
                               (setup_environment pw (environ w))))))"


section \<open>The token-based platform: \<^verbatim>\<open>src/windows/main.c\<close>\<close>

type_synonym dword = "32 word"

text \<open>A wide string literal \<^verbatim>\<open>L"..."\<close> of ASCII characters.\<close>

definition L :: "string \<Rightarrow> wstring" where
  "L s = map of_char s"

subsection \<open>The session identifier of \<^verbatim>\<open>--session\<close> (lines 302-308)\<close>

text \<open>
  Modelled from the spec: \<^verbatim>\<open>wcstoul\<close> of the C library with base 10, which the
  repository calls and does not contain. It passes over leading white space, reads
  an optional sign and then decimal digits. With no digit it converts nothing: the
  value is 0 and the end pointer is the start of the string. A magnitude above
  \<^verbatim>\<open>ULONG_MAX\<close> gives \<^verbatim>\<open>ULONG_MAX\<close>; a minus sign negates the value in the unsigned
  type. \<^verbatim>\<open>unsigned long\<close> has 32 bits on this platform. The result is the value and
  the offset of the end pointer from the start of the string. White space is the
  ASCII white space: tab, line feed, vertical tab, form feed, carriage return, space.
\<close>

definition iswspace :: "wchar \<Rightarrow> bool" where
  "iswspace c = (c = 32 \<or> (9 \<le> c \<and> c \<le> 13))"

definition iswdigit :: "wchar \<Rightarrow> bool" where
  "iswdigit c = (48 \<le> c \<and> c \<le> 57)"

abbreviation MINUS :: wchar where "MINUS \<equiv> 45"
abbreviation PLUS :: wchar where "PLUS \<equiv> 43"

definition ULONG_MAX :: nat where
  "ULONG_MAX = 4294967295"

fun digits_value :: "nat \<Rightarrow> wstring \<Rightarrow> nat" where
  "digits_value acc [] = acc"
| "digits_value acc (c # cs) = digits_value (acc * 10 + (unat c - 48)) cs"

definition wcstoul :: "wstring \<Rightarrow> dword \<times> nat" where
  "wcstoul s =
     (let ws = takeWhile iswspace s;
          r1 = dropWhile iswspace s;
          has_sign = (r1 \<noteq> [] \<and> (hd r1 = MINUS \<or> hd r1 = PLUS));
          negative = (r1 \<noteq> [] \<and> hd r1 = MINUS);
          r2 = (if has_sign then tl r1 else r1);
          ds = takeWhile iswdigit r2;
          m = digits_value 0 ds
      in if ds = [] then (0, 0)
         else ((if ULONG_MAX < m then of_nat ULONG_MAX
                else if negative then - of_nat m
                else of_nat m),
               length ws + (if has_sign then 1 else 0) + length ds))"

text \<open>
  Lines 302-308: the argument of \<^verbatim>\<open>--session\<close> is refused when nothing was converted
  (\<^verbatim>\<open>endPtr == argv[i + 1]\<close>) or when the end pointer stops before the end of the
  string (\<^verbatim>\<open>*endPtr != L'\0'\<close>); otherwise the value, cast to \<^verbatim>\<open>DWORD\<close>, is the
  session identifier.
\<close>

definition parse_session_id :: "wstring \<Rightarrow> dword option" where
  "parse_session_id v =
     (let val = fst (wcstoul v); endPtr = snd (wcstoul v) in
      if endPtr = 0 \<or> endPtr < length v then None else Some val)"

subsection \<open>Flags (lines 291-325)\<close>

text \<open>
  \<^verbatim>\<open>WCommand\<close> carries \<^verbatim>\<open>waitForChild\<close>, the session identifier when
  \<^verbatim>\<open>sessionSpecified\<close> is set, and the command with its arguments. \<^verbatim>\<open>WUsage\<close> is a
  return of \<^verbatim>\<open>EXIT_USAGE_ERROR\<close>.
\<close>

datatype win_parsed = WHelp | WUsage | WCommand bool "dword option" "wstring list"

fun win_parse_flags :: "bool \<Rightarrow> dword option \<Rightarrow> wstring list \<Rightarrow> win_parsed" where
  "win_parse_flags waitForChild session [] = WUsage"
| "win_parse_flags waitForChild session (a # rest) =
     (if a = L ''--wait'' then win_parse_flags True session rest
      else if a = L ''--session'' then
        (case rest of
           [] \<Rightarrow> WUsage
         | v # rest' \<Rightarrow>
             (case parse_session_id v of
                None \<Rightarrow> WUsage
              | Some val \<Rightarrow> win_parse_flags waitForChild (Some val) rest'))
      else if a = L ''--help'' \<or> a = L ''-h'' then WHelp
      else WCommand waitForChild session (a # rest))"

subsection \<open>The operating system\<close>

datatype wts_state =
    WTSActive | WTSConnected | WTSConnectQuery | WTSShadow | WTSDisconnected
  | WTSIdle | WTSListen | WTSReset | WTSDown | WTSInit

record session_info =
  SessionId :: dword
  State :: wts_state

text \<open>
  What each call returns when the program reaches it. \<^verbatim>\<open>enumerate_sessions\<close> is
  \<open>None\<close> when \<^verbatim>\<open>WTSEnumerateSessionsW\<close> fails. \<^verbatim>\<open>query_user_token\<close> gives, for a
  session, \<open>None\<close> when \<^verbatim>\<open>WTSQueryUserToken\<close> succeeds and the code of
  \<^verbatim>\<open>GetLastError\<close> when it fails. \<^verbatim>\<open>exit_code_process\<close> is what
  \<^verbatim>\<open>GetExitCodeProcess\<close> stores after the wait, \<open>None\<close> when it fails.
\<close>

record win_world =
  console_session_id :: dword
  enumerate_sessions :: "session_info list option"
  query_user_token :: "dword \<Rightarrow> dword option"
  duplicate_token_ok :: bool
  create_environment_block_ok :: bool
  user_profile_directory :: "wstring option"
  malloc_ok :: bool
  create_process_ok :: bool
  exit_code_process :: "dword option"

abbreviation ERROR_PRIVILEGE_NOT_HELD :: dword where "ERROR_PRIVILEGE_NOT_HELD \<equiv> 1314"
abbreviation ERROR_NO_TOKEN :: dword where "ERROR_NO_TOKEN \<equiv> 1008"

text \<open>
  The calls a run makes, in order. \<^verbatim>\<open>CreateProcessAsUser\<close> carries the command line
  and the working directory. Diagnostics written to \<^verbatim>\<open>stderr\<close> and the release of
  handles and buffers after the \<^verbatim>\<open>cleanup\<close> label are not modelled.
\<close>

datatype win_action =
    GetActiveConsoleSessionId
  | EnumerateSessions
  | QuerySessionInformation dword
  | QueryUserToken dword
  | DuplicateTokenEx
  | CreateEnvironmentBlock
  | GetUserProfileDirectory
  | CreateProcessAsUser wstring "wstring option"
  | WaitForSingleObject
  | GetExitCodeProcess

type_synonym win_result = "int \<times> win_action list"

subsection \<open>\<^verbatim>\<open>find_active_session\<close> (lines 78-107)\<close>

fun first_active :: "session_info list \<Rightarrow> dword option" where
  "first_active [] = None"
| "first_active (s # ss) = (if State s = WTSActive then Some (SessionId s) else first_active ss)"

definition find_active_session :: "win_world \<Rightarrow> dword option \<times> win_action list" where
  "find_active_session w =
     (if console_session_id w \<noteq> 0xFFFFFFFF then
        (Some (console_session_id w), [GetActiveConsoleSessionId])
      else
        (case enumerate_sessions w of
           None \<Rightarrow> (None, [GetActiveConsoleSessionId, EnumerateSessions])
         | Some pSessions \<Rightarrow>
             (first_active pSessions, [GetActiveConsoleSessionId, EnumerateSessions])))"

subsection \<open>\<^verbatim>\<open>wmain\<close> (lines 271-468)\<close>

text \<open>
  \<^verbatim>\<open>run_session\<close> is \<^verbatim>\<open>wmain\<close> from step 2 on (lines 337-447), for the target
  session \<^verbatim>\<open>targetSessionId\<close>. The cast \<^verbatim>\<open>(int)childExitCode\<close> reads the 32 bits as a
  signed value.
\<close>

definition run_session :: "win_world \<Rightarrow> bool \<Rightarrow> dword \<Rightarrow> wstring list \<Rightarrow> win_result" where
  "run_session w waitForChild targetSessionId cmd =
     (case query_user_token w targetSessionId of
        Some err \<Rightarrow>
          (EXIT_TOKEN_FAILURE,
           [QuerySessionInformation targetSessionId, QueryUserToken targetSessionId])
      | None \<Rightarrow>
          if \<not> duplicate_token_ok w then
            (EXIT_TOKEN_FAILURE,
             [QuerySessionInformation targetSessionId, QueryUserToken targetSessionId,
              DuplicateTokenEx])
          else if \<not> create_environment_block_ok w then
            (EXIT_GENERAL_FAILURE,
             [QuerySessionInformation targetSessionId, QueryUserToken targetSessionId,
              DuplicateTokenEx, CreateEnvironmentBlock])
          else
            let profileDir = (case user_profile_directory w of None \<Rightarrow> [] | Some d \<Rightarrow> d);
                pre = [QuerySessionInformation targetSessionId, QueryUserToken targetSessionId,
                       DuplicateTokenEx, CreateEnvironmentBlock, GetUserProfileDirectory]
            in
            (case build_command_line (malloc_ok w) cmd of
               None \<Rightarrow> (EXIT_GENERAL_FAILURE, pre)
             | Some cmdLine \<Rightarrow>
                 let create = CreateProcessAsUser cmdLine
                                (if profileDir \<noteq> [] then Some profileDir else None) in
                 if \<not> create_process_ok w then (EXIT_PROCESS_FAILURE, pre @ [create])
                 else if waitForChild then
                   ((case exit_code_process w of
                       Some childExitCode \<Rightarrow> sint childExitCode
                     | None \<Rightarrow> EXIT_GENERAL_FAILURE),
                    pre @ [create, WaitForSingleObject, GetExitCodeProcess])
                 else (EXIT_SUCCESS_CODE, pre @ [create])))"

definition wmain :: "win_world \<Rightarrow> wstring list \<Rightarrow> win_result" where
  "wmain w argv =
     (case win_parse_flags False None (drop 1 argv) of
        WHelp \<Rightarrow> (EXIT_SUCCESS_CODE, [])
      | WUsage \<Rightarrow> (EXIT_USAGE_ERROR, [])
      | WCommand waitForChild session cmd \<Rightarrow>
          (case session of
             Some targetSessionId \<Rightarrow> run_session w waitForChild targetSessionId cmd
           | None \<Rightarrow>
               (case find_active_session w of
                  (None, acts) \<Rightarrow> (EXIT_NO_SESSION, acts)
                | (Some targetSessionId, acts) \<Rightarrow>
                    after acts (run_session w waitForChild targetSessionId cmd))))"


section \<open>Vocabulary of the properties\<close>

text \<open>The calls that change the identity of the process, and those that launch.\<close>

fun is_transition :: "mac_action \<Rightarrow> bool" where
  "is_transition (InitGroups name gid) = True"
| "is_transition (SetGid gid) = True"
| "is_transition (SetUid uid) = True"
| "is_transition a = False"

fun is_launch :: "mac_action \<Rightarrow> bool" where
  "is_launch (Spawn file args e) = True"
| "is_launch (Execvp file args e) = True"
| "is_launch a = False"

fun is_discovery :: "win_action \<Rightarrow> bool" where
  "is_discovery GetActiveConsoleSessionId = True"
| "is_discovery EnumerateSessions = True"
| "is_discovery a = False"

fun is_token_use :: "win_action \<Rightarrow> bool" where
  "is_token_use DuplicateTokenEx = True"
| "is_token_use CreateEnvironmentBlock = True"
| "is_token_use GetUserProfileDirectory = True"
| "is_token_use a = False"

fun is_creation :: "win_action \<Rightarrow> bool" where
  "is_creation (CreateProcessAsUser cmdLine dir) = True"
| "is_creation a = False"

fun is_observation :: "win_action \<Rightarrow> bool" where
  "is_observation WaitForSingleObject = True"
| "is_observation GetExitCodeProcess = True"
| "is_observation a = False"

text \<open>
  A run of \<^verbatim>\<open>main\<close> reaches \<^verbatim>\<open>drop_privileges\<close> when the flags give a command without
  \<^verbatim>\<open>--session\<close>, the caller is root, the console user is a real user and its
  password entry is found.
\<close>

definition reaches_drop ::
  "mac_world \<Rightarrow> string list \<Rightarrow> bool \<Rightarrow> string \<Rightarrow> string list \<Rightarrow> uid_t \<Rightarrow> passwd \<Rightarrow> bool" where
  "reaches_drop w argv flag_wait cmd args uid pw =
     (parse_flags False False (drop 1 argv) = Command flag_wait False cmd args
      \<and> getuid_ret w = 0
      \<and> (case console_user w of
            NoConsoleUser \<Rightarrow> False
          | ConsoleUser username u g \<Rightarrow>
              username \<noteq> None \<and> username \<noteq> Some ''loginwindow'' \<and> u = uid)
      \<and> getpwuid_ret w uid = Some pw)"

text \<open>
  A run of \<^verbatim>\<open>main\<close> reaches \<^verbatim>\<open>handle_session\<close> when the flags give a command with
  \<^verbatim>\<open>--session\<close>, the caller is root and the console user is a real user.
\<close>

definition reaches_session ::
  "mac_world \<Rightarrow> string list \<Rightarrow> bool \<Rightarrow> string \<Rightarrow> string list \<Rightarrow> uid_t \<Rightarrow> bool" where
  "reaches_session w argv flag_wait cmd args uid =
     (parse_flags False False (drop 1 argv) = Command flag_wait True cmd args
      \<and> getuid_ret w = 0
      \<and> (case console_user w of
            NoConsoleUser \<Rightarrow> False
          | ConsoleUser username u g \<Rightarrow>
              username \<noteq> None \<and> username \<noteq> Some ''loginwindow'' \<and> u = uid))"

text \<open>
  A run of \<^verbatim>\<open>wmain\<close> resolves the session \<open>sid\<close> after the calls \<open>acts\<close>: the
  session is the one of \<^verbatim>\<open>--session\<close>, or the one \<^verbatim>\<open>find_active_session\<close> finds.
\<close>

definition resolves ::
  "win_world \<Rightarrow> wstring list \<Rightarrow> bool \<Rightarrow> wstring list \<Rightarrow> dword \<Rightarrow> win_action list \<Rightarrow> bool" where
  "resolves w argv waitForChild cmd sid acts =
     (case win_parse_flags False None (drop 1 argv) of
        WCommand wfc session cmd' \<Rightarrow>
          wfc = waitForChild \<and> cmd' = cmd
          \<and> (case session of
                Some s \<Rightarrow> s = sid \<and> acts = []
              | None \<Rightarrow> find_active_session w = (Some sid, acts))
      | _ \<Rightarrow> False)"

text \<open>
  A run of \<^verbatim>\<open>wmain\<close> reaches \<^verbatim>\<open>CreateProcessAsUserW\<close> when, for the resolved session,
  the token is obtained and duplicated, the environment block is created and the
  command line is allocated.
\<close>

definition reaches_create :: "win_world \<Rightarrow> dword \<Rightarrow> bool" where
  "reaches_create w sid =
     (query_user_token w sid = None \<and> duplicate_token_ok w
      \<and> create_environment_block_ok w \<and> malloc_ok w)"

text \<open>Reading a string of decimal digits, to state what \<^verbatim>\<open>decimal\<close> writes.\<close>

definition read_decimal :: "string \<Rightarrow> nat" where
  "read_decimal s = foldl (\<lambda>a c. 10 * a + (of_char c - 48)) 0 s"

section \<open>Example runs\<close>

definition alice :: passwd where
  "alice = \<lparr>pw_name = ''alice'', pw_uid = 501, pw_gid = 20,
            pw_dir = ''/Users/alice'', pw_shell = ''/bin/zsh''\<rparr>"

definition mac_example :: mac_world where
  "mac_example =
     \<lparr>getuid_ret = 0,
      console_user = ConsoleUser (Some ''alice'') 501 20,
      self_path = Some ''/usr/local/bin/runasuser'',
      calloc_ok = True,
      getpwuid_ret = (\<lambda>u. if u = 501 then Some alice else None),
      initgroups_ret = 0, setgid_ret = 0, setuid_ret = 0, regain_root_ret = -1,
      environ = [(''HOME'', ''/var/root''), (''SECRET'', ''s3cret'')],
      fork_ok = True, execvp_ok = True,
      waitpid_rets = [Interrupted, Status (Exited 7)]\<rparr>"

definition win_example :: win_world where
  "win_example =
     \<lparr>console_session_id = 1,
      enumerate_sessions = None,
      query_user_token = (\<lambda>sid. if sid = 1 then None else Some 2),
      duplicate_token_ok = True,
      create_environment_block_ok = True,
      user_profile_directory = Some (L ''C:'' @ BACKSLASH # L ''Users'' @ BACKSLASH # L ''alice''),
      malloc_ok = True,
      create_process_ok = True,
      exit_code_process = Some 7\<rparr>"


text \<open>
  What is left of a command line after one argument \<open>a\<close> has been read: nothing, or
  a separator followed by more arguments.
\<close>

definition split_rest :: "wstring \<Rightarrow> wstring \<Rightarrow> wstring list" where
  "split_rest a rest = (case rest of [] \<Rightarrow> [a] | c # cs \<Rightarrow> a # split_skip cs)"


section \<open>Properties of the codec\<close>

lemma split_arg_backslashes:
  "split_arg inq n cur (replicate k BACKSLASH @ s) = split_arg inq (n + k) cur s"
  by (induction k arbitrary: n) simp_all

lemma split_arg_end:
  "rest = [] \<or> hd rest = SPACE \<Longrightarrow>
   split_arg False n cur rest = split_rest (cur @ replicate n BACKSLASH) rest"
  by (cases rest) (auto simp: split_rest_def)

lemma split_arg_plain:
  "\<not> scan_special arg \<Longrightarrow> rest = [] \<or> hd rest = SPACE \<Longrightarrow>
   split_arg False n cur (arg @ rest) = split_rest (cur @ replicate n BACKSLASH @ arg) rest"
proof (induction arg arbitrary: n cur)
  case Nil
  then show ?case using split_arg_end by simp
next
  case (Cons c cs)
  then show ?case
    by (auto simp: replicate_app_Cons_same split: if_splits)
qed

lemma split_arg_quoted:
  "rest = [] \<or> hd rest = SPACE \<Longrightarrow>
   split_arg True n cur (emit_quoted n arg @ rest)
     = split_rest (cur @ replicate n BACKSLASH @ arg) rest"
proof (induction arg arbitrary: n cur)
  case Nil
  have "split_arg True n cur (replicate n BACKSLASH @ DQUOTE # rest)
          = split_arg True (n + n) cur (DQUOTE # rest)"
    by (rule split_arg_backslashes)
  also have "\<dots> = split_arg False 0 (cur @ replicate n BACKSLASH) rest"
    by simp
  also have "\<dots> = split_rest (cur @ replicate n BACKSLASH) rest"
    using Nil split_arg_end [of rest 0] by simp
  finally show ?case by simp
next
  case (Cons c cs)
  show ?case
  proof (cases "c = BACKSLASH")
    case True
    then show ?thesis using Cons.IH [OF Cons.prems, of "n + 1" cur]
      by (simp add: replicate_app_Cons_same)
  next
    case nb: False
    show ?thesis
    proof (cases "c = DQUOTE")
      case True
      have "split_arg True n cur (replicate n BACKSLASH @ BACKSLASH # DQUOTE # emit_quoted 0 cs @ rest)
              = split_arg True (n + n) cur (BACKSLASH # DQUOTE # emit_quoted 0 cs @ rest)"
        by (rule split_arg_backslashes)
      also have "\<dots> = split_arg True 0 (cur @ replicate n BACKSLASH @ [DQUOTE]) (emit_quoted 0 cs @ rest)"
        by simp
      also have "\<dots> = split_rest ((cur @ replicate n BACKSLASH @ [DQUOTE]) @ replicate 0 BACKSLASH @ cs) rest"
        by (rule Cons.IH [OF Cons.prems])
      finally show ?thesis using True by simp
    next
      case False
      then show ?thesis using nb Cons.IH [OF Cons.prems, of 0 "cur @ replicate n BACKSLASH @ [c]"]
        by simp
    qed
  qed
qed

lemma emit_arg_start:
  "emit_arg arg \<noteq> [] \<and> hd (emit_arg arg) \<noteq> SPACE \<and> hd (emit_arg arg) \<noteq> TAB"
  by (cases arg) (auto simp: emit_arg_def needsQuoting_def)

lemma split_arg_emit_arg:
  assumes "rest = [] \<or> hd rest = SPACE"
  shows "split_arg False 0 [] (emit_arg arg @ rest) = split_rest arg rest"
proof (cases "needsQuoting arg")
  case True
  then show ?thesis using split_arg_quoted [OF assms, of 0 "[]" arg]
    by (simp add: emit_arg_def)
next
  case False
  then have "\<not> scan_special arg" by (simp add: needsQuoting_def split: if_splits)
  then show ?thesis using False split_arg_plain [OF _ assms, of arg 0 "[]"]
    by (simp add: emit_arg_def)
qed

lemma split_skip_emit_arg:
  assumes "rest = [] \<or> hd rest = SPACE"
  shows "split_skip (emit_arg arg @ rest) = split_rest arg rest"
proof -
  obtain c cs where e: "emit_arg arg = c # cs" and "c \<noteq> SPACE" "c \<noteq> TAB"
    using emit_arg_start [of arg] by (cases "emit_arg arg") auto
  then have "split_skip (emit_arg arg @ rest) = split_arg False 0 [] (emit_arg arg @ rest)"
    by simp
  then show ?thesis using split_arg_emit_arg [OF assms] by simp
qed

lemma split_skip_emit_args: "split_skip (emit_args argv) = argv"
proof (induction argv)
  case Nil
  show ?case by simp
next
  case (Cons arg rest)
  show ?case
  proof (cases rest)
    case Nil
    then show ?thesis using split_skip_emit_arg [of "[]" arg] by (simp add: split_rest_def)
  next
    case (Cons b bs)
    then have "split_skip (emit_args (arg # rest)) = split_rest arg (SPACE # emit_args rest)"
      using split_skip_emit_arg [of "SPACE # emit_args rest" arg] by simp
    then show ?thesis using Cons.IH by (simp add: split_rest_def)
  qed
qed

lemma count_quoted_length: "length (emit_quoted n arg) = count_quoted n arg + 1"
  by (induction arg arbitrary: n) simp_all

lemma count_args_length: "length (emit_args argv) = count_args argv"
  by (induction argv) (simp_all add: count_arg_def emit_arg_def count_quoted_length)

lemma totalLen_fits: "totalLen argv = length (emit_args argv) + 1"
  by (simp add: totalLen_def count_args_length)

lemma emit_quoted_nonempty: "emit_quoted n arg \<noteq> []"
  by (cases arg) simp_all

lemma emit_quoted_backslashes:
  "emit_quoted n (replicate k BACKSLASH @ ys) = replicate k BACKSLASH @ emit_quoted (n + k) ys"
  by (induction k arbitrary: n) simp_all

lemma emit_quoted_prefix:
  "pre \<noteq> [] \<Longrightarrow> last pre \<noteq> BACKSLASH \<Longrightarrow>
   emit_quoted n (pre @ ys) = butlast (emit_quoted n pre) @ emit_quoted 0 ys"
proof (induction pre arbitrary: n)
  case Nil
  then show ?case by simp
next
  case (Cons c cs)
  show ?case
  proof (cases "cs = []")
    case True
    then show ?thesis using Cons.prems by (simp add: butlast_append)
  next
    case False
    then have "last cs \<noteq> BACKSLASH" using Cons.prems by simp
    then show ?thesis using False Cons.IH emit_quoted_nonempty
      by (simp add: butlast_append)
  qed
qed

lemma emit_quoted_prefix0:
  "pre = [] \<or> last pre \<noteq> BACKSLASH \<Longrightarrow>
   emit_quoted 0 (pre @ ys) = butlast (emit_quoted 0 pre) @ emit_quoted 0 ys"
  using emit_quoted_prefix [of pre 0 ys] by (cases "pre = []") auto

lemma scan_special_iff: "scan_special arg \<longleftrightarrow> (\<exists>c \<in> set arg. c = SPACE \<or> c = TAB \<or> c = DQUOTE)"
  by (induction arg) auto

lemma replicate_double: "replicate n x @ replicate n x = replicate (2 * n) x"
  by (simp add: replicate_add [symmetric] mult_2)


text \<open>
  Claim C2. Splitting the string that \<^verbatim>\<open>build_command_line\<close> returns gives back the
  argument vector, for every vector. A non-empty argument without space, tab or
  double quote is written unchanged; the empty argument is written as two double
  quotes; a run of \<open>N\<close> backslashes before a double quote is written as \<open>2N + 1\<close>
  backslashes and the quote; a run of \<open>N\<close> backslashes at the end of a quoted
  argument is written as \<open>2N\<close> backslashes before the closing quote. Here \<open>pre\<close>
  is the part of the argument before the run (it does not end in a backslash, so
  the run is whole), and \<open>butlast (emit_quoted 0 pre)\<close> is what the loop writes for
  it, without the closing quote.
\<close>

theorem codec_round_trip:
  "map_option split (build_command_line True argv) = Some argv
   \<and> (arg \<noteq> [] \<and> (\<forall>c \<in> set arg. c \<noteq> SPACE \<and> c \<noteq> TAB \<and> c \<noteq> DQUOTE) \<longrightarrow> emit_arg arg = arg)
   \<and> emit_arg [] = [DQUOTE, DQUOTE]
   \<and> (pre = [] \<or> last pre \<noteq> BACKSLASH \<longrightarrow>
        emit_arg (pre @ replicate N BACKSLASH @ DQUOTE # rest)
          = DQUOTE # butlast (emit_quoted 0 pre)
              @ replicate (2 * N + 1) BACKSLASH @ DQUOTE # emit_quoted 0 rest)
   \<and> ((pre = [] \<or> last pre \<noteq> BACKSLASH) \<and> needsQuoting (pre @ replicate N BACKSLASH) \<longrightarrow>
        emit_arg (pre @ replicate N BACKSLASH)
          = DQUOTE # butlast (emit_quoted 0 pre) @ replicate (2 * N) BACKSLASH @ [DQUOTE])"
proof -
  have rt: "map_option split (build_command_line True argv) = Some argv"
    by (simp add: build_command_line_def split_def split_skip_emit_args)
  have plain: "emit_arg arg = arg"
    if "arg \<noteq> [] \<and> (\<forall>c \<in> set arg. c \<noteq> SPACE \<and> c \<noteq> TAB \<and> c \<noteq> DQUOTE)"
    using that by (auto simp: emit_arg_def needsQuoting_def scan_special_iff)
  have empty: "emit_arg [] = [DQUOTE, DQUOTE]"
    by (simp add: emit_arg_def needsQuoting_def)
  have quote: "emit_arg (pre @ replicate N BACKSLASH @ DQUOTE # rest)
          = DQUOTE # butlast (emit_quoted 0 pre)
              @ replicate (2 * N + 1) BACKSLASH @ DQUOTE # emit_quoted 0 rest"
    if p: "pre = [] \<or> last pre \<noteq> BACKSLASH"
  proof -
    have nq: "needsQuoting (pre @ replicate N BACKSLASH @ DQUOTE # rest)"
      by (simp add: needsQuoting_def scan_special_iff)
    have "emit_quoted 0 (pre @ replicate N BACKSLASH @ DQUOTE # rest)
            = butlast (emit_quoted 0 pre) @ emit_quoted 0 (replicate N BACKSLASH @ DQUOTE # rest)"
      by (rule emit_quoted_prefix0 [OF p])
    also have "emit_quoted 0 (replicate N BACKSLASH @ DQUOTE # rest)
            = replicate N BACKSLASH @ emit_quoted N (DQUOTE # rest)"
      using emit_quoted_backslashes [of 0 N "DQUOTE # rest"] by simp
    also have "\<dots> = replicate (2 * N + 1) BACKSLASH @ DQUOTE # emit_quoted 0 rest"
      using replicate_double [of N BACKSLASH]
      by (simp add: replicate_app_Cons_same)
    finally show ?thesis using nq by (simp add: emit_arg_def)
  qed
  have trail: "emit_arg (pre @ replicate N BACKSLASH)
          = DQUOTE # butlast (emit_quoted 0 pre) @ replicate (2 * N) BACKSLASH @ [DQUOTE]"
    if p: "(pre = [] \<or> last pre \<noteq> BACKSLASH) \<and> needsQuoting (pre @ replicate N BACKSLASH)"
  proof -
    have "emit_quoted 0 (pre @ replicate N BACKSLASH)
            = butlast (emit_quoted 0 pre) @ emit_quoted 0 (replicate N BACKSLASH)"
      using p by (intro emit_quoted_prefix0) simp
    also have "emit_quoted 0 (replicate N BACKSLASH) = replicate N BACKSLASH @ emit_quoted N []"
      using emit_quoted_backslashes [of 0 N "[]"] by simp
    also have "\<dots> = replicate (2 * N) BACKSLASH @ [DQUOTE]"
      using replicate_double [of N BACKSLASH] by simp
    finally show ?thesis using p by (simp add: emit_arg_def)
  qed
  show ?thesis using rt plain empty quote trail by blast
qed

theorem codec_round_trip_witness:
  "map_option split
     (build_command_line True [L ''a b'', [], [BACKSLASH, DQUOTE], L ''c d'' @ [BACKSLASH]])
     = Some [L ''a b'', [], [BACKSLASH, DQUOTE], L ''c d'' @ [BACKSLASH]]
   \<and> emit_arg (L ''abc'') = L ''abc''
   \<and> emit_arg (L ''a b'' @ replicate 2 BACKSLASH @ DQUOTE # L ''c'')
       = DQUOTE # L ''a b'' @ replicate 5 BACKSLASH @ DQUOTE # L ''c'' @ [DQUOTE]
   \<and> emit_arg (L ''a b'' @ replicate 2 BACKSLASH)
       = DQUOTE # L ''a b'' @ replicate 4 BACKSLASH @ [DQUOTE]"
  using codec_round_trip [of "[L ''a b'', [], [BACKSLASH, DQUOTE], L ''c d'' @ [BACKSLASH]]"
      "L ''abc''" "L ''a b''" 2 "L ''c''"]
  by (simp add: L_def needsQuoting_def)


section \<open>Properties of the privilege drop\<close>

lemma main_reaches_drop:
  assumes "reaches_drop w argv flag_wait cmd args uid pw"
  shows "main w argv =
          (if fst (drop_privileges w pw) \<noteq> 0 then
             (Exit EXIT_PRIV_DROP,
              [GetUid, CopyConsoleUser, GetPwUid uid] @ snd (drop_privileges w pw))
           else
             after ([GetUid, CopyConsoleUser, GetPwUid uid] @ snd (drop_privileges w pw))
               (launch w flag_wait cmd args (setup_environment pw (environ w))))"
  using assms
  by (auto simp: reaches_drop_def main_def Let_def split: console.splits)

lemma drop_privileges_calls:
  "snd (drop_privileges w pw) =
     take (length (snd (drop_privileges w pw)))
       [InitGroups (pw_name pw) (pw_gid pw), SetGid (pw_gid pw), SetUid (pw_uid pw), SetUid 0]"
  by (simp add: drop_privileges_def)

lemma drop_privileges_no_launch:
  "filter is_launch (snd (drop_privileges w pw)) = []"
  by (simp add: drop_privileges_def)


text \<open>
  Claim C1. \<^verbatim>\<open>drop_privileges\<close> returns 0 exactly when \<^verbatim>\<open>initgroups\<close>, \<^verbatim>\<open>setgid\<close>
  and \<^verbatim>\<open>setuid\<close> succeed and the verifying \<^verbatim>\<open>setuid(0)\<close> fails; it returns -1
  otherwise. The calls it makes are always an initial part of the sequence
  \<^verbatim>\<open>initgroups\<close>, \<^verbatim>\<open>setgid\<close>, \<^verbatim>\<open>setuid\<close>, \<^verbatim>\<open>setuid(0)\<close>, and all four on success.
  When it fails, \<^verbatim>\<open>main\<close> returns 3 and has neither forked nor called \<^verbatim>\<open>execvp\<close>.
\<close>

theorem drop_privileges_all_or_nothing:
  "(fst (drop_privileges w pw) = 0 \<longleftrightarrow>
      initgroups_ret w = 0 \<and> setgid_ret w = 0 \<and> setuid_ret w = 0 \<and> regain_root_ret w \<noteq> 0)
   \<and> (fst (drop_privileges w pw) = 0 \<or> fst (drop_privileges w pw) = -1)
   \<and> snd (drop_privileges w pw) =
       take (length (snd (drop_privileges w pw)))
         [InitGroups (pw_name pw) (pw_gid pw), SetGid (pw_gid pw), SetUid (pw_uid pw), SetUid 0]
   \<and> (fst (drop_privileges w pw) = 0 \<longrightarrow> length (snd (drop_privileges w pw)) = 4)
   \<and> (reaches_drop w argv flag_wait cmd args uid pw \<and> fst (drop_privileges w pw) \<noteq> 0 \<longrightarrow>
        fst (main w argv) = Exit EXIT_PRIV_DROP
        \<and> filter is_launch (snd (main w argv)) = [])"
proof -
  have iff: "fst (drop_privileges w pw) = 0 \<longleftrightarrow>
      initgroups_ret w = 0 \<and> setgid_ret w = 0 \<and> setuid_ret w = 0 \<and> regain_root_ret w \<noteq> 0"
    by (simp add: drop_privileges_def)
  have ret: "fst (drop_privileges w pw) = 0 \<or> fst (drop_privileges w pw) = -1"
    by (simp add: drop_privileges_def)
  have len: "fst (drop_privileges w pw) = 0 \<longrightarrow> length (snd (drop_privileges w pw)) = 4"
    by (simp add: drop_privileges_def)
  have fail: "fst (main w argv) = Exit EXIT_PRIV_DROP
        \<and> filter is_launch (snd (main w argv)) = []"
    if r: "reaches_drop w argv flag_wait cmd args uid pw" and f: "fst (drop_privileges w pw) \<noteq> 0"
  proof -
    have m: "main w argv = (Exit EXIT_PRIV_DROP,
              [GetUid, CopyConsoleUser, GetPwUid uid] @ snd (drop_privileges w pw))"
      using main_reaches_drop [OF r] f by simp
    show ?thesis using drop_privileges_no_launch [of w pw] by (simp add: m)
  qed
  show ?thesis using iff ret len fail drop_privileges_calls [of w pw] by blast
qed

theorem drop_privileges_all_or_nothing_witness:
  "fst (drop_privileges mac_example alice) = 0
   \<and> snd (drop_privileges mac_example alice)
       = [InitGroups ''alice'' 20, SetGid 20, SetUid 501, SetUid 0]
   \<and> reaches_drop (mac_example\<lparr>regain_root_ret := 0\<rparr>) [''runasuser'', ''id''] False ''id'' [] 501 alice
   \<and> fst (drop_privileges (mac_example\<lparr>regain_root_ret := 0\<rparr>) alice) = -1
   \<and> fst (main (mac_example\<lparr>regain_root_ret := 0\<rparr>) [''runasuser'', ''id'']) = Exit 3
   \<and> filter is_launch (snd (main (mac_example\<lparr>regain_root_ret := 0\<rparr>) [''runasuser'', ''id''])) = []"
proof -
  have r: "reaches_drop (mac_example\<lparr>regain_root_ret := 0\<rparr>) [''runasuser'', ''id''] False ''id'' [] 501 alice"
    by (simp add: reaches_drop_def mac_example_def)
  have f: "fst (drop_privileges (mac_example\<lparr>regain_root_ret := 0\<rparr>) alice) = -1"
    by (simp add: drop_privileges_def mac_example_def)
  have ok: "initgroups_ret mac_example = 0 \<and> setgid_ret mac_example = 0
      \<and> setuid_ret mac_example = 0 \<and> regain_root_ret mac_example \<noteq> 0"
    by (simp add: mac_example_def)
  have t: "take 4 [InitGroups (pw_name alice) (pw_gid alice), SetGid (pw_gid alice),
                   SetUid (pw_uid alice), SetUid 0]
           = [InitGroups ''alice'' 20, SetGid 20, SetUid 501, SetUid 0]"
    by (simp add: alice_def)
  show ?thesis
    using r f ok t
      drop_privileges_all_or_nothing [of mac_example alice "[]" False "''x''" "[]" 0]
      drop_privileges_all_or_nothing [of "mac_example\<lparr>regain_root_ret := 0\<rparr>" alice
         "[''runasuser'', ''id'']" False "''id''" "[]" 501]
    by (metis (no_types, lifting) zero_neq_neg_one)
qed


section \<open>Properties of the two programs\<close>

lemma waitpid_loop_interrupted:
  "waitpid_loop (replicate n Interrupted @ rs) = waitpid_loop rs"
  by (induction n) simp_all

lemma wait_child_status:
  "wait_child (replicate n Interrupted @ Status st # later) = Exit (status_code st)"
  by (simp add: wait_child_def waitpid_loop_interrupted)

lemma wmain_resolves:
  assumes "resolves w argv waitForChild cmd sid acts"
  shows "wmain w argv = after acts (run_session w waitForChild sid cmd)"
  using assms
  by (auto simp: resolves_def wmain_def after_def split: win_parsed.splits option.splits)

lemma run_session_token_failure:
  "query_user_token w sid = Some err \<Longrightarrow>
   run_session w waitForChild sid cmd =
     (EXIT_TOKEN_FAILURE, [QuerySessionInformation sid, QueryUserToken sid])"
  by (simp add: run_session_def)

lemma run_session_created:
  assumes "reaches_create w sid"
  shows "run_session w waitForChild sid cmd =
     (let pre = [QuerySessionInformation sid, QueryUserToken sid, DuplicateTokenEx,
                 CreateEnvironmentBlock, GetUserProfileDirectory];
          create = CreateProcessAsUser (emit_args cmd)
                     (case user_profile_directory w of
                        None \<Rightarrow> None
                      | Some d \<Rightarrow> if d \<noteq> [] then Some d else None)
      in if \<not> create_process_ok w then (EXIT_PROCESS_FAILURE, pre @ [create])
         else if waitForChild then
           ((case exit_code_process w of
               Some childExitCode \<Rightarrow> sint childExitCode
             | None \<Rightarrow> EXIT_GENERAL_FAILURE),
            pre @ [create, WaitForSingleObject, GetExitCodeProcess])
         else (EXIT_SUCCESS_CODE, pre @ [create]))"
  using assms
  by (auto simp: reaches_create_def run_session_def build_command_line_def Let_def
           split: option.splits)


lemma find_active_session_discovery:
  "filter is_discovery (snd (find_active_session w)) = snd (find_active_session w)"
  by (simp add: find_active_session_def split: option.splits)

lemma find_active_session_first:
  "take 1 (snd (find_active_session w)) = [GetActiveConsoleSessionId]"
  by (simp add: find_active_session_def split: option.splits)

lemma find_active_session_quiet:
  "filter is_token_use (snd (find_active_session w)) = []
   \<and> filter is_creation (snd (find_active_session w)) = []"
  by (simp add: find_active_session_def split: option.splits)

lemma resolves_quiet:
  assumes "resolves w argv waitForChild cmd sid acts"
  shows "filter is_token_use acts = [] \<and> filter is_creation acts = []"
proof (cases "acts = []")
  case True
  then show ?thesis by simp
next
  case False
  then have "acts = snd (find_active_session w)"
    using assms by (auto simp: resolves_def split: win_parsed.splits option.splits)
  then show ?thesis using find_active_session_quiet [of w] by simp
qed

lemma wmain_token_failure:
  assumes "resolves w argv waitForChild cmd sid acts" and "query_user_token w sid = Some err"
  shows "wmain w argv = (EXIT_TOKEN_FAILURE, acts @ [QuerySessionInformation sid, QueryUserToken sid])"
  using wmain_resolves [OF assms(1)] run_session_token_failure [OF assms(2)]
  by (simp add: after_def)


subsection \<open>Waiting mode\<close>

text \<open>
  Claim C3, as stated, fails: the code of a child killed by a signal is not distinct
  from every code of a child that exits normally. With \<^verbatim>\<open>--wait\<close>, a child killed by
  signal 9 and a child that exits with code 137 both make \<^verbatim>\<open>main\<close> return 137.
\<close>

theorem signal_code_collides_counterexample:
  "fst (main (mac_example\<lparr>waitpid_rets := [Status (Signaled 9)]\<rparr>) [''runasuser'', ''--wait'', ''job''])
     = Exit 137
   \<and> fst (main (mac_example\<lparr>waitpid_rets := [Status (Exited 137)]\<rparr>) [''runasuser'', ''--wait'', ''job''])
     = Exit 137"
  by (simp add: main_def mac_example_def drop_privileges_def launch_def after_def
        wait_child_def alice_def)


text \<open>
  Claim C3, amended. In waiting mode, when the child exits normally with code \<open>K\<close>
  the program returns \<open>K\<close>. On the credential-syscall platform the wait is retried
  while it is interrupted, and a child killed by signal \<open>sig\<close> (at least 1) makes
  the program return \<open>128 + sig\<close>: a value above 5, fixed by the signal, different
  from the code of every normal exit with \<open>K\<close> up to 128, and equal to the code of
  a normal exit with \<open>128 + sig\<close>. On the token-based platform the program returns
  the exit code that \<^verbatim>\<open>GetExitCodeProcess\<close> reports, with the same 32 bits.
\<close>

theorem waiting_mode_exit_code:
  "(reaches_drop w argv True cmd args uid pw \<and> fst (drop_privileges w pw) = 0 \<and> fork_ok w
      \<and> waitpid_rets w = replicate n Interrupted @ Status st # later \<longrightarrow>
        fst (main w argv) = Exit (status_code st))
   \<and> status_code (Exited K) = int K
   \<and> (1 \<le> sig \<longrightarrow>
        status_code (Signaled sig) = 128 + int sig \<and> 5 < status_code (Signaled sig)
        \<and> (K \<le> 128 \<longrightarrow> status_code (Signaled sig) \<noteq> status_code (Exited K)))
   \<and> status_code (Signaled sig) = status_code (Exited (128 + sig))
   \<and> (resolves w' argv' True cmd' sid acts \<and> reaches_create w' sid \<and> create_process_ok w'
      \<and> exit_code_process w' = Some code \<longrightarrow>
        fst (wmain w' argv') = sint code \<and> word_of_int (fst (wmain w' argv')) = code)"
proof -
  have mac: "fst (main w argv) = Exit (status_code st)"
    if "reaches_drop w argv True cmd args uid pw \<and> fst (drop_privileges w pw) = 0 \<and> fork_ok w
      \<and> waitpid_rets w = replicate n Interrupted @ Status st # later"
    using that main_reaches_drop [of w argv True cmd args uid pw]
    by (simp add: after_def launch_def wait_child_status)
  have win: "fst (wmain w' argv') = sint code \<and> word_of_int (fst (wmain w' argv')) = code"
    if "resolves w' argv' True cmd' sid acts \<and> reaches_create w' sid \<and> create_process_ok w'
      \<and> exit_code_process w' = Some code"
    using that wmain_resolves [of w' argv' True cmd' sid acts]
      run_session_created [of w' sid True cmd']
    by (simp add: after_def Let_def)
  show ?thesis using mac win by auto
qed

theorem waiting_mode_exit_code_witness:
  "fst (main mac_example [''runasuser'', ''--wait'', ''job'']) = Exit 7
   \<and> status_code (Signaled 9) = 137
   \<and> status_code (Signaled 9) \<noteq> status_code (Exited 7)
   \<and> fst (wmain win_example [L ''runasuser'', L ''--wait'', L ''job'']) = 7"
proof -
  have r: "reaches_drop mac_example [''runasuser'', ''--wait'', ''job''] True ''job'' [] 501 alice"
    by (simp add: reaches_drop_def mac_example_def)
  have d: "fst (drop_privileges mac_example alice) = 0 \<and> fork_ok mac_example
      \<and> waitpid_rets mac_example = replicate 1 Interrupted @ Status (Exited 7) # []"
    by (simp add: drop_privileges_def mac_example_def)
  have s: "resolves win_example [L ''runasuser'', L ''--wait'', L ''job''] True [L ''job''] 1
             [GetActiveConsoleSessionId]"
    by (simp add: resolves_def win_example_def find_active_session_def L_def)
  have c: "reaches_create win_example 1 \<and> create_process_ok win_example
      \<and> exit_code_process win_example = Some 7"
    by (simp add: reaches_create_def win_example_def)
  show ?thesis
    using r d s c
      waiting_mode_exit_code [of mac_example "[''runasuser'', ''--wait'', ''job'']" "''job''" "[]"
        501 alice 1 "Exited 7" "[]" 7 9 win_example "[L ''runasuser'', L ''--wait'', L ''job'']"
        "[L ''job'']" 1 "[GetActiveConsoleSessionId]" 7]
    by simp
qed

subsection \<open>No interactive session\<close>

text \<open>
  Claim C4, as stated, fails on the token-based platform: when no user is logged
  into the resolved session, \<^verbatim>\<open>WTSQueryUserToken\<close> fails with \<^verbatim>\<open>ERROR_NO_TOKEN\<close> and
  \<^verbatim>\<open>wmain\<close> returns 3, not 2.
\<close>

theorem no_logged_in_user_counterexample:
  "query_user_token (win_example\<lparr>query_user_token := (\<lambda>sid. Some ERROR_NO_TOKEN)\<rparr>) 1
     = Some ERROR_NO_TOKEN
   \<and> wmain (win_example\<lparr>query_user_token := (\<lambda>sid. Some ERROR_NO_TOKEN)\<rparr>)
        [L ''runasuser'', L ''whoami'']
     = (EXIT_TOKEN_FAILURE, [GetActiveConsoleSessionId, QuerySessionInformation 1, QueryUserToken 1])"
  by (simp add: wmain_def win_example_def find_active_session_def run_session_def after_def L_def)


text \<open>
  Claim C4, amended. On the credential-syscall platform, when there is no console
  user, or its name cannot be read, or it is the login window, \<^verbatim>\<open>main\<close> returns 2
  after \<^verbatim>\<open>getuid\<close> and the console query alone. On the token-based platform, when
  \<^verbatim>\<open>find_active_session\<close> finds no session, \<^verbatim>\<open>wmain\<close> returns 2 after the discovery
  calls alone; when the token of the resolved session cannot be obtained (as when no
  user is logged into it), \<^verbatim>\<open>wmain\<close> returns 3 and the token query is its last call:
  no token is duplicated and no process is created.
\<close>

theorem no_session_exit:
  "(parse_flags False False (drop 1 argv) = Command flag_wait flag_session cmd args
      \<and> getuid_ret w = 0
      \<and> (console_user w = NoConsoleUser \<or> console_user w = ConsoleUser None uid gid
          \<or> console_user w = ConsoleUser (Some ''loginwindow'') uid gid) \<longrightarrow>
        main w argv = (Exit EXIT_NO_SESSION, [GetUid, CopyConsoleUser])
        \<and> filter is_transition (snd (main w argv)) = []
        \<and> filter is_launch (snd (main w argv)) = [])
   \<and> (win_parse_flags False None (drop 1 argv2) = WCommand waitForChild None cmd2
      \<and> fst (find_active_session w2) = None \<longrightarrow>
        wmain w2 argv2 = (EXIT_NO_SESSION, snd (find_active_session w2))
        \<and> filter is_discovery (snd (wmain w2 argv2)) = snd (wmain w2 argv2)
        \<and> filter is_token_use (snd (wmain w2 argv2)) = []
        \<and> filter is_creation (snd (wmain w2 argv2)) = [])
   \<and> (resolves w3 argv3 waitForChild3 cmd3 sid acts \<and> query_user_token w3 sid = Some err \<longrightarrow>
        wmain w3 argv3
          = (EXIT_TOKEN_FAILURE, acts @ [QuerySessionInformation sid, QueryUserToken sid])
        \<and> filter is_token_use (snd (wmain w3 argv3)) = []
        \<and> filter is_creation (snd (wmain w3 argv3)) = [])"
proof -
  have mac: "main w argv = (Exit EXIT_NO_SESSION, [GetUid, CopyConsoleUser])
        \<and> filter is_transition (snd (main w argv)) = []
        \<and> filter is_launch (snd (main w argv)) = []"
    if "parse_flags False False (drop 1 argv) = Command flag_wait flag_session cmd args
      \<and> getuid_ret w = 0
      \<and> (console_user w = NoConsoleUser \<or> console_user w = ConsoleUser None uid gid
          \<or> console_user w = ConsoleUser (Some ''loginwindow'') uid gid)"
    using that by (auto simp: main_def)
  have win: "wmain w2 argv2 = (EXIT_NO_SESSION, snd (find_active_session w2))
        \<and> filter is_discovery (snd (wmain w2 argv2)) = snd (wmain w2 argv2)
        \<and> filter is_token_use (snd (wmain w2 argv2)) = []
        \<and> filter is_creation (snd (wmain w2 argv2)) = []"
    if "win_parse_flags False None (drop 1 argv2) = WCommand waitForChild None cmd2
      \<and> fst (find_active_session w2) = None"
  proof -
    have "wmain w2 argv2 = (EXIT_NO_SESSION, snd (find_active_session w2))"
      using that by (cases "find_active_session w2") (simp add: wmain_def)
    then show ?thesis
      using find_active_session_quiet [of w2] by (simp add: find_active_session_discovery)
  qed
  have tok: "wmain w3 argv3
          = (EXIT_TOKEN_FAILURE, acts @ [QuerySessionInformation sid, QueryUserToken sid])
        \<and> filter is_token_use (snd (wmain w3 argv3)) = []
        \<and> filter is_creation (snd (wmain w3 argv3)) = []"
    if "resolves w3 argv3 waitForChild3 cmd3 sid acts \<and> query_user_token w3 sid = Some err"
    using that wmain_token_failure [of w3 argv3 waitForChild3 cmd3 sid acts err]
      resolves_quiet [of w3 argv3 waitForChild3 cmd3 sid acts]
    by simp
  show ?thesis using mac win tok by blast
qed

theorem no_session_exit_witness:
  "main (mac_example\<lparr>console_user := ConsoleUser (Some ''loginwindow'') 0 0\<rparr>) [''runasuser'', ''id'']
     = (Exit 2, [GetUid, CopyConsoleUser])
   \<and> wmain (win_example\<lparr>console_session_id := 0xFFFFFFFF\<rparr>) [L ''runasuser'', L ''whoami'']
     = (2, [GetActiveConsoleSessionId, EnumerateSessions])
   \<and> wmain (win_example\<lparr>query_user_token := (\<lambda>sid. Some ERROR_NO_TOKEN)\<rparr>)
        [L ''runasuser'', L ''whoami'']
     = (3, [GetActiveConsoleSessionId, QuerySessionInformation 1, QueryUserToken 1])"
proof -
  have a: "parse_flags False False (drop 1 [''runasuser'', ''id'']) = Command False False ''id'' []
      \<and> getuid_ret (mac_example\<lparr>console_user := ConsoleUser (Some ''loginwindow'') 0 0\<rparr>) = 0
      \<and> console_user (mac_example\<lparr>console_user := ConsoleUser (Some ''loginwindow'') 0 0\<rparr>)
          = ConsoleUser (Some ''loginwindow'') 0 0"
    by (simp add: mac_example_def)
  have b: "win_parse_flags False None (drop 1 [L ''runasuser'', L ''whoami''])
             = WCommand False None [L ''whoami'']"
    by (simp add: L_def)
  have c: "find_active_session (win_example\<lparr>console_session_id := 0xFFFFFFFF\<rparr>)
             = (None, [GetActiveConsoleSessionId, EnumerateSessions])"
    by (simp add: find_active_session_def win_example_def)
  have d: "resolves (win_example\<lparr>query_user_token := (\<lambda>sid. Some ERROR_NO_TOKEN)\<rparr>)
             [L ''runasuser'', L ''whoami''] False [L ''whoami''] 1 [GetActiveConsoleSessionId]
           \<and> query_user_token (win_example\<lparr>query_user_token := (\<lambda>sid. Some ERROR_NO_TOKEN)\<rparr>) 1
               = Some ERROR_NO_TOKEN"
    by (simp add: resolves_def L_def find_active_session_def win_example_def)
  show ?thesis
    using a b c d
      no_session_exit [where w = "mac_example\<lparr>console_user := ConsoleUser (Some ''loginwindow'') 0 0\<rparr>"
        and argv = "[''runasuser'', ''id'']" and flag_wait = False and flag_session = False
        and cmd = "''id''" and args = "[]" and uid = 0 and gid = 0
        and ?w2.0 = "win_example\<lparr>console_session_id := 0xFFFFFFFF\<rparr>"
        and ?argv2.0 = "[L ''runasuser'', L ''whoami'']" and waitForChild = False
        and ?cmd2.0 = "[L ''whoami'']"
        and ?w3.0 = "win_example\<lparr>query_user_token := (\<lambda>sid. Some ERROR_NO_TOKEN)\<rparr>"
        and ?argv3.0 = "[L ''runasuser'', L ''whoami'']" and ?waitForChild3.0 = False
        and ?cmd3.0 = "[L ''whoami'']" and sid = 1 and acts = "[GetActiveConsoleSessionId]"
        and err = ERROR_NO_TOKEN]
    by simp
qed


subsection \<open>Missing privilege\<close>

text \<open>
  Claim C5, as stated, fails on the token-based platform: the program does not test
  its own rights first. It discovers the session, and the missing privilege shows
  when \<^verbatim>\<open>WTSQueryUserToken\<close> fails with \<^verbatim>\<open>ERROR_PRIVILEGE_NOT_HELD\<close>; \<^verbatim>\<open>wmain\<close> then
  returns 3, not 1.
\<close>

theorem unprivileged_token_platform_counterexample:
  "wmain (win_example\<lparr>query_user_token := (\<lambda>sid. Some ERROR_PRIVILEGE_NOT_HELD)\<rparr>)
        [L ''runasuser'', L ''whoami'']
     = (EXIT_TOKEN_FAILURE, [GetActiveConsoleSessionId, QuerySessionInformation 1, QueryUserToken 1])"
  by (simp add: wmain_def win_example_def find_active_session_def run_session_def after_def L_def)


text \<open>
  Claim C5, amended. On the credential-syscall platform, an invocation with a
  command by a caller that is not root returns 1 after \<^verbatim>\<open>getuid\<close> alone, before the
  console query. On the token-based platform, an invocation whose token query fails
  with \<^verbatim>\<open>ERROR_PRIVILEGE_NOT_HELD\<close> returns 3 after session discovery and one token
  query; without \<^verbatim>\<open>--session\<close> the first call of every run with a command is the
  console-session query. No call is made twice.
\<close>

theorem unprivileged_exit:
  "(parse_flags False False (drop 1 argv) = Command flag_wait flag_session cmd args
      \<and> getuid_ret w \<noteq> 0 \<longrightarrow>
        main w argv = (Exit EXIT_GENERAL, [GetUid]))
   \<and> (resolves w2 argv2 waitForChild cmd2 sid acts
      \<and> query_user_token w2 sid = Some ERROR_PRIVILEGE_NOT_HELD \<longrightarrow>
        wmain w2 argv2
          = (EXIT_TOKEN_FAILURE, acts @ [QuerySessionInformation sid, QueryUserToken sid]))
   \<and> (win_parse_flags False None (drop 1 argv3) = WCommand waitForChild3 None cmd3 \<longrightarrow>
        take 1 (snd (wmain w3 argv3)) = [GetActiveConsoleSessionId])"
proof -
  have mac: "main w argv = (Exit EXIT_GENERAL, [GetUid])"
    if "parse_flags False False (drop 1 argv) = Command flag_wait flag_session cmd args
      \<and> getuid_ret w \<noteq> 0"
    using that by (simp add: main_def)
  have first: "take 1 (snd (wmain w3 argv3)) = [GetActiveConsoleSessionId]"
    if p: "win_parse_flags False None (drop 1 argv3) = WCommand waitForChild3 None cmd3"
  proof (cases "find_active_session w3")
    case (Pair r t)
    have t: "take 1 t = [GetActiveConsoleSessionId]"
      using find_active_session_first [of w3] Pair by simp
    then have "t \<noteq> []" by auto
    then have "take 1 (t @ ys) = [GetActiveConsoleSessionId]" for ys
      using t by (cases t) simp_all
    then show ?thesis using p Pair t
      by (cases r) (simp_all add: wmain_def after_def)
  qed
  show ?thesis using mac first wmain_token_failure by blast
qed

theorem unprivileged_exit_witness:
  "main (mac_example\<lparr>getuid_ret := 501\<rparr>) [''runasuser'', ''id''] = (Exit 1, [GetUid])
   \<and> wmain (win_example\<lparr>query_user_token := (\<lambda>sid. Some ERROR_PRIVILEGE_NOT_HELD)\<rparr>)
        [L ''runasuser'', L ''whoami'']
     = (3, [GetActiveConsoleSessionId, QuerySessionInformation 1, QueryUserToken 1])
   \<and> take 1 (snd (wmain win_example [L ''runasuser'', L ''whoami''])) = [GetActiveConsoleSessionId]"
proof -
  have a: "parse_flags False False (drop 1 [''runasuser'', ''id'']) = Command False False ''id'' []
      \<and> getuid_ret (mac_example\<lparr>getuid_ret := 501\<rparr>) \<noteq> 0"
    by (simp add: mac_example_def)
  have b: "win_parse_flags False None (drop 1 [L ''runasuser'', L ''whoami''])
             = WCommand False None [L ''whoami'']"
    by (simp add: L_def)
  have d: "resolves (win_example\<lparr>query_user_token := (\<lambda>sid. Some ERROR_PRIVILEGE_NOT_HELD)\<rparr>)
             [L ''runasuser'', L ''whoami''] False [L ''whoami''] 1 [GetActiveConsoleSessionId]
           \<and> query_user_token (win_example\<lparr>query_user_token := (\<lambda>sid. Some ERROR_PRIVILEGE_NOT_HELD)\<rparr>) 1
               = Some ERROR_PRIVILEGE_NOT_HELD"
    by (simp add: resolves_def L_def find_active_session_def win_example_def)
  show ?thesis
    using a b d
      unprivileged_exit [where w = "mac_example\<lparr>getuid_ret := 501\<rparr>"
        and argv = "[''runasuser'', ''id'']" and flag_wait = False and flag_session = False
        and cmd = "''id''" and args = "[]"
        and ?w2.0 = "win_example\<lparr>query_user_token := (\<lambda>sid. Some ERROR_PRIVILEGE_NOT_HELD)\<rparr>"
        and ?argv2.0 = "[L ''runasuser'', L ''whoami'']" and waitForChild = False
        and ?cmd2.0 = "[L ''whoami'']" and sid = 1 and acts = "[GetActiveConsoleSessionId]"
        and ?w3.0 = win_example
        and ?argv3.0 = "[L ''runasuser'', L ''whoami'']" and ?waitForChild3.0 = False
        and ?cmd3.0 = "[L ''whoami'']"]
    by simp
qed


subsection \<open>The environment of the child\<close>

lemma getenv_setenv:
  "getenv (setenv name val e) k = (if k = name then Some val else getenv e k)"
  by (induction e) (auto simp: getenv_def)

lemma setup_environment_sets:
  "getenv (setup_environment pw e) ''HOME'' = Some (pw_dir pw)
   \<and> getenv (setup_environment pw e) ''USER'' = Some (pw_name pw)
   \<and> getenv (setup_environment pw e) ''LOGNAME'' = Some (pw_name pw)
   \<and> getenv (setup_environment pw e) ''SHELL'' = Some (pw_shell pw)
   \<and> getenv (setup_environment pw e) ''PATH'' = Some DEFAULT_PATH"
  by (simp add: setup_environment_def getenv_setenv)

text \<open>
  Claim C6. The comments of \<^verbatim>\<open>setup_environment\<close> (lines 208-210) and of line 296 say
  that a clean environment is set, and the claim asks that nothing of the caller's
  environment reaches the command. The code does not do that: it sets the five
  variables (\<open>setup_environment_sets\<close>) and clears nothing. Run by root with
  \<^verbatim>\<open>SECRET\<close> in its environment, the program replaces its image by the command with
  \<^verbatim>\<open>SECRET\<close> still set; the same run from an environment without \<^verbatim>\<open>SECRET\<close> hands
  the command another environment.
\<close>

theorem caller_environment_leaks:
  "fst (main mac_example [''runasuser'', ''id''])
     = Replaced ''id'' [''id'']
         [(''HOME'', ''/Users/alice''), (''SECRET'', ''s3cret''), (''USER'', ''alice''),
          (''LOGNAME'', ''alice''), (''SHELL'', ''/bin/zsh''), (''PATH'', DEFAULT_PATH)]
   \<and> fst (main (mac_example\<lparr>environ := [(''HOME'', ''/var/root'')]\<rparr>) [''runasuser'', ''id''])
     = Replaced ''id'' [''id'']
         [(''HOME'', ''/Users/alice''), (''USER'', ''alice''),
          (''LOGNAME'', ''alice''), (''SHELL'', ''/bin/zsh''), (''PATH'', DEFAULT_PATH)]
   \<and> fst (main mac_example [''runasuser'', ''id''])
     \<noteq> fst (main (mac_example\<lparr>environ := [(''HOME'', ''/var/root'')]\<rparr>) [''runasuser'', ''id''])"
  by (simp add: main_def mac_example_def drop_privileges_def launch_def after_def
        setup_environment_def alice_def)

subsection \<open>Namespace indirection\<close>

lemma main_reaches_session:
  assumes "reaches_session w argv flag_wait cmd args uid"
  shows "main w argv = after [GetUid, CopyConsoleUser] (handle_session w uid flag_wait (cmd # args))"
  using assms
  by (auto simp: reaches_session_def main_def split: console.splits)

lemma small_cases: "(d::nat) < 10 \<Longrightarrow> d \<in> {0, 1, 2, 3, 4, 5, 6, 7, 8, 9}"
  by auto

lemma of_char_digit_char: "d < 10 \<Longrightarrow> of_char (digit_char d) = 48 + d"
  using small_cases [of d] by (auto simp: digit_char_def)

lemma read_decimal_snoc:
  "read_decimal (s @ [c]) = 10 * read_decimal s + (of_char c - 48)"
  by (simp add: read_decimal_def)

lemma read_decimal_decimal: "read_decimal (decimal n) = n"
proof (induction n rule: decimal.induct)
  case (1 n)
  show ?case
  proof (cases "n < 10")
    case True
    then show ?thesis
      using of_char_digit_char [of n] by (simp add: read_decimal_def)
  next
    case False
    have "decimal n = decimal (n div 10) @ [digit_char (n mod 10)]"
      using False by (subst decimal.simps) simp
    then show ?thesis
      using 1 [OF False] of_char_digit_char [of "n mod 10"]
      by (simp add: read_decimal_snoc)
  qed
qed


text \<open>
  Claim C7, as stated, fails in its last part: on the \<^verbatim>\<open>--session\<close> path the code of a
  helper killed by a signal is not out of the band of the codes of a normal exit. A
  helper killed by signal 9 and a helper that exits with code 137 both make \<^verbatim>\<open>main\<close>
  return 137 (lines 156-159).
\<close>

theorem session_signal_collides_counterexample:
  "fst (main (mac_example\<lparr>waitpid_rets := [Status (Signaled 9)]\<rparr>)
          [''runasuser'', ''--session'', ''open''])
     = Exit 137
   \<and> fst (main (mac_example\<lparr>waitpid_rets := [Status (Exited 137)]\<rparr>)
          [''runasuser'', ''--session'', ''open''])
     = Exit 137"
  by (simp add: main_def mac_example_def handle_session_def after_def wait_child_def)

text \<open>
  Claim C7, amended. With \<^verbatim>\<open>--session\<close>, once the own path is resolved and the child is
  forked, the child runs \<^verbatim>\<open>launchctl\<close> with the vector \<^verbatim>\<open>launchctl asuser\<close>, the
  decimal user identifier, the own path, \<^verbatim>\<open>--wait\<close> exactly when it was given, and
  the command with its arguments; \<^verbatim>\<open>--session\<close> is not among the flags passed on. The
  program waits for that child whatever \<^verbatim>\<open>--wait\<close> says and goes round while the wait
  is interrupted. When the helper exits normally with code \<open>K\<close> the program returns
  \<open>K\<close>; when the helper is killed by signal \<open>sig\<close> (at least 1) the program returns
  \<open>128 + sig\<close>, a value above 5, different from the code of every normal exit with
  \<open>K\<close> up to 128, and equal to the code of a normal exit with \<open>128 + sig\<close>; when the
  status is neither, it returns 1. This is the rule of the waiting mode: a run with
  \<^verbatim>\<open>--wait\<close> that reaches its wait and meets the same returns of \<^verbatim>\<open>waitpid\<close> ends the
  same way.
\<close>

theorem session_indirection:
  "reaches_session w argv flag_wait cmd args uid \<and> self_path w = Some self \<and> calloc_ok w
     \<and> fork_ok w \<longrightarrow>
     snd (main w argv) =
       [GetUid, CopyConsoleUser, GetSelfPath,
        Spawn ''launchctl''
          ([''launchctl'', ''asuser'', decimal (unat uid), self]
           @ (if flag_wait then [''--wait''] else []) @ cmd # args)
          (environ w),
        WaitPid]
     \<and> read_decimal (decimal (unat uid)) = unat uid
     \<and> (waitpid_rets w = replicate n Interrupted @ Status (Exited K) # later \<longrightarrow>
          fst (main w argv) = Exit (int K))
     \<and> (waitpid_rets w = replicate n Interrupted @ Status (Signaled sig) # later \<longrightarrow>
          fst (main w argv) = Exit (128 + int sig)
          \<and> (1 \<le> sig \<longrightarrow> 5 < 128 + int sig \<and> (K' \<le> 128 \<longrightarrow> 128 + int sig \<noteq> int K')))
     \<and> (waitpid_rets w = replicate n Interrupted @ Status Neither # later \<longrightarrow>
          fst (main w argv) = Exit EXIT_GENERAL)
     \<and> (waitpid_rets w = replicate n Interrupted @ WaitError # later \<longrightarrow>
          fst (main w argv) = Exit EXIT_GENERAL)
     \<and> (waitpid_rets w = replicate n Interrupted @ Status (Signaled sig) # later
        \<and> waitpid_rets w2 = replicate n Interrupted @ Status (Exited (128 + sig)) # later
        \<and> reaches_session w2 argv flag_wait cmd args uid \<and> self_path w2 = Some self
        \<and> calloc_ok w2 \<and> fork_ok w2 \<longrightarrow>
          fst (main w2 argv) = fst (main w argv))
     \<and> (reaches_drop w3 argv3 True cmd3 args3 uid3 pw \<and> fst (drop_privileges w3 pw) = 0
        \<and> fork_ok w3 \<and> waitpid_rets w3 = waitpid_rets w \<longrightarrow>
          fst (main w3 argv3) = fst (main w argv))"
proof -
  have run: "main w' argv = after [GetUid, CopyConsoleUser]
               ((wait_child (waitpid_rets w'),
                 [GetSelfPath,
                  Spawn ''launchctl''
                    ([''launchctl'', ''asuser'', decimal (unat uid), self]
                     @ (if flag_wait then [''--wait''] else []) @ cmd # args)
                    (environ w'),
                  WaitPid]))"
    if "reaches_session w' argv flag_wait cmd args uid \<and> self_path w' = Some self
        \<and> calloc_ok w' \<and> fork_ok w'" for w'
    using that main_reaches_session [of w' argv flag_wait cmd args uid]
    by (simp add: handle_session_def Let_def)
  have err: "wait_child (replicate n Interrupted @ WaitError # later) = Exit EXIT_GENERAL"
    by (simp add: wait_child_def waitpid_loop_interrupted)
  have waiting: "fst (main w3 argv3) = wait_child (waitpid_rets w3)"
    if "reaches_drop w3 argv3 True cmd3 args3 uid3 pw \<and> fst (drop_privileges w3 pw) = 0
        \<and> fork_ok w3"
    using that main_reaches_drop [of w3 argv3 True cmd3 args3 uid3 pw]
    by (simp add: after_def launch_def)
  show ?thesis
  proof
    assume h: "reaches_session w argv flag_wait cmd args uid \<and> self_path w = Some self
        \<and> calloc_ok w \<and> fork_ok w"
    have f: "fst (main w argv) = wait_child (waitpid_rets w)"
      using run [OF h] by (simp add: after_def)
    have t: "snd (main w argv) =
       [GetUid, CopyConsoleUser, GetSelfPath,
        Spawn ''launchctl''
          ([''launchctl'', ''asuser'', decimal (unat uid), self]
           @ (if flag_wait then [''--wait''] else []) @ cmd # args)
          (environ w),
        WaitPid]"
      using run [OF h] by (simp add: after_def)
    have ex: "fst (main w argv) = Exit (int K)"
      if "waitpid_rets w = replicate n Interrupted @ Status (Exited K) # later"
      using that f wait_child_status [of n "Exited K" later] by simp
    have sg: "fst (main w argv) = Exit (128 + int sig)
          \<and> (1 \<le> sig \<longrightarrow> 5 < 128 + int sig \<and> (K' \<le> 128 \<longrightarrow> 128 + int sig \<noteq> int K'))"
      if "waitpid_rets w = replicate n Interrupted @ Status (Signaled sig) # later"
      using that f wait_child_status [of n "Signaled sig" later] by simp
    have ne: "fst (main w argv) = Exit EXIT_GENERAL"
      if "waitpid_rets w = replicate n Interrupted @ Status Neither # later"
      using that f wait_child_status [of n Neither later] by simp
    have we: "fst (main w argv) = Exit EXIT_GENERAL"
      if "waitpid_rets w = replicate n Interrupted @ WaitError # later"
      using that f err by simp
    have col: "fst (main w2 argv) = fst (main w argv)"
      if c: "waitpid_rets w = replicate n Interrupted @ Status (Signaled sig) # later
        \<and> waitpid_rets w2 = replicate n Interrupted @ Status (Exited (128 + sig)) # later
        \<and> reaches_session w2 argv flag_wait cmd args uid \<and> self_path w2 = Some self
        \<and> calloc_ok w2 \<and> fork_ok w2"
    proof -
      have "fst (main w2 argv) = wait_child (waitpid_rets w2)"
        using run [of w2] c by (simp add: after_def)
      then show ?thesis
        using c f wait_child_status [of n "Signaled sig" later]
          wait_child_status [of n "Exited (128 + sig)" later]
        by simp
    qed
    have same: "fst (main w3 argv3) = fst (main w argv)"
      if "reaches_drop w3 argv3 True cmd3 args3 uid3 pw \<and> fst (drop_privileges w3 pw) = 0
        \<and> fork_ok w3 \<and> waitpid_rets w3 = waitpid_rets w"
      using that waiting f by simp
    show "snd (main w argv) =
       [GetUid, CopyConsoleUser, GetSelfPath,
        Spawn ''launchctl''
          ([''launchctl'', ''asuser'', decimal (unat uid), self]
           @ (if flag_wait then [''--wait''] else []) @ cmd # args)
          (environ w),
        WaitPid]
     \<and> read_decimal (decimal (unat uid)) = unat uid
     \<and> (waitpid_rets w = replicate n Interrupted @ Status (Exited K) # later \<longrightarrow>
          fst (main w argv) = Exit (int K))
     \<and> (waitpid_rets w = replicate n Interrupted @ Status (Signaled sig) # later \<longrightarrow>
          fst (main w argv) = Exit (128 + int sig)
          \<and> (1 \<le> sig \<longrightarrow> 5 < 128 + int sig \<and> (K' \<le> 128 \<longrightarrow> 128 + int sig \<noteq> int K')))
     \<and> (waitpid_rets w = replicate n Interrupted @ Status Neither # later \<longrightarrow>
          fst (main w argv) = Exit EXIT_GENERAL)
     \<and> (waitpid_rets w = replicate n Interrupted @ WaitError # later \<longrightarrow>
          fst (main w argv) = Exit EXIT_GENERAL)
     \<and> (waitpid_rets w = replicate n Interrupted @ Status (Signaled sig) # later
        \<and> waitpid_rets w2 = replicate n Interrupted @ Status (Exited (128 + sig)) # later
        \<and> reaches_session w2 argv flag_wait cmd args uid \<and> self_path w2 = Some self
        \<and> calloc_ok w2 \<and> fork_ok w2 \<longrightarrow>
          fst (main w2 argv) = fst (main w argv))
     \<and> (reaches_drop w3 argv3 True cmd3 args3 uid3 pw \<and> fst (drop_privileges w3 pw) = 0
        \<and> fork_ok w3 \<and> waitpid_rets w3 = waitpid_rets w \<longrightarrow>
          fst (main w3 argv3) = fst (main w argv))"
      using t read_decimal_decimal [of "unat uid"] ex sg ne we col same by blast
  qed
qed

theorem session_indirection_witness:
  "main mac_example [''runasuser'', ''--session'', ''open'', ''-a'', ''Safari''] =
     (Exit 7,
      [GetUid, CopyConsoleUser, GetSelfPath,
       Spawn ''launchctl''
         [''launchctl'', ''asuser'', ''501'', ''/usr/local/bin/runasuser'', ''open'', ''-a'', ''Safari'']
         [(''HOME'', ''/var/root''), (''SECRET'', ''s3cret'')],
       WaitPid])
   \<and> main (mac_example\<lparr>waitpid_rets := [Status (Signaled 15)]\<rparr>)
        [''runasuser'', ''--wait'', ''--session'', ''open''] =
     (Exit 143,
      [GetUid, CopyConsoleUser, GetSelfPath,
       Spawn ''launchctl''
         [''launchctl'', ''asuser'', ''501'', ''/usr/local/bin/runasuser'', ''--wait'', ''open'']
         [(''HOME'', ''/var/root''), (''SECRET'', ''s3cret'')],
       WaitPid])
   \<and> fst (main mac_example [''runasuser'', ''--wait'', ''open''])
       = fst (main mac_example [''runasuser'', ''--session'', ''open'', ''-a'', ''Safari''])"
proof -
  let ?w2 = "mac_example\<lparr>waitpid_rets := [Status (Signaled 15)]\<rparr>"
  have r1: "reaches_session mac_example [''runasuser'', ''--session'', ''open'', ''-a'', ''Safari'']
             False ''open'' [''-a'', ''Safari''] 501"
    by (simp add: reaches_session_def mac_example_def)
  have r2: "reaches_session ?w2 [''runasuser'', ''--wait'', ''--session'', ''open'']
             True ''open'' [] 501"
    by (simp add: reaches_session_def mac_example_def)
  have r3: "reaches_drop mac_example [''runasuser'', ''--wait'', ''open''] True ''open'' [] 501 alice
      \<and> fst (drop_privileges mac_example alice) = 0"
    by (simp add: reaches_drop_def drop_privileges_def mac_example_def)
  have p1: "self_path mac_example = Some ''/usr/local/bin/runasuser'' \<and> calloc_ok mac_example
      \<and> fork_ok mac_example
      \<and> waitpid_rets mac_example = replicate 1 Interrupted @ Status (Exited 7) # []
      \<and> environ mac_example = [(''HOME'', ''/var/root''), (''SECRET'', ''s3cret'')]"
    by (simp add: mac_example_def)
  have p2: "self_path ?w2 = Some ''/usr/local/bin/runasuser'' \<and> calloc_ok ?w2 \<and> fork_ok ?w2
      \<and> waitpid_rets ?w2 = replicate 0 Interrupted @ Status (Signaled 15) # []
      \<and> environ ?w2 = [(''HOME'', ''/var/root''), (''SECRET'', ''s3cret'')]"
    by (simp add: mac_example_def)
  have u: "decimal (unat (501 :: uid_t)) = ''501''"
    by (simp add: digit_char_def)
  note t1 = session_indirection [where w = mac_example
      and argv = "[''runasuser'', ''--session'', ''open'', ''-a'', ''Safari'']"
      and flag_wait = False and cmd = "''open''" and args = "[''-a'', ''Safari'']" and uid = 501
      and self = "''/usr/local/bin/runasuser''" and n = 1 and K = 7 and later = "[]"
      and ?w3.0 = mac_example and ?argv3.0 = "[''runasuser'', ''--wait'', ''open'']"
      and ?cmd3.0 = "''open''" and ?args3.0 = "[]" and ?uid3.0 = 501 and pw = alice]
  note t2 = session_indirection [where w = ?w2
      and argv = "[''runasuser'', ''--wait'', ''--session'', ''open'']"
      and flag_wait = True and cmd = "''open''" and args = "[]" and uid = 501
      and self = "''/usr/local/bin/runasuser''" and n = 0 and sig = 15 and later = "[]"]
  have a: "main mac_example [''runasuser'', ''--session'', ''open'', ''-a'', ''Safari''] =
     (Exit 7,
      [GetUid, CopyConsoleUser, GetSelfPath,
       Spawn ''launchctl''
         [''launchctl'', ''asuser'', ''501'', ''/usr/local/bin/runasuser'', ''open'', ''-a'', ''Safari'']
         [(''HOME'', ''/var/root''), (''SECRET'', ''s3cret'')],
       WaitPid])"
    using t1 r1 p1 u by (simp add: prod_eq_iff)
  have b: "main ?w2 [''runasuser'', ''--wait'', ''--session'', ''open''] =
     (Exit 143,
      [GetUid, CopyConsoleUser, GetSelfPath,
       Spawn ''launchctl''
         [''launchctl'', ''asuser'', ''501'', ''/usr/local/bin/runasuser'', ''--wait'', ''open'']
         [(''HOME'', ''/var/root''), (''SECRET'', ''s3cret'')],
       WaitPid])"
    using t2 r2 p2 u by (simp add: prod_eq_iff)
  have c: "fst (main mac_example [''runasuser'', ''--wait'', ''open''])
       = fst (main mac_example [''runasuser'', ''--session'', ''open'', ''-a'', ''Safari''])"
    using t1 r1 r3 p1 by blast
  show ?thesis using a b c by blast
qed

subsection \<open>Non-waiting mode\<close>

text \<open>
  Claim C9. Without \<^verbatim>\<open>--wait\<close> (and without \<^verbatim>\<open>--session\<close>), on the
  credential-syscall platform the program calls \<^verbatim>\<open>execvp\<close> itself and forks no
  child: the image is replaced by the command, or \<^verbatim>\<open>main\<close> returns 4 when \<^verbatim>\<open>execvp\<close>
  fails. On the token-based platform the creation of the process is the last call
  of the run, \<^verbatim>\<open>wmain\<close> returns 0 when it succeeds and 4 when it fails, and the
  child is neither waited for nor asked for its exit code.
\<close>

theorem non_waiting_launch:
  "(reaches_drop w argv False cmd args uid pw \<and> fst (drop_privileges w pw) = 0 \<longrightarrow>
      fst (main w argv) =
        (if execvp_ok w then Replaced cmd (cmd # args) (setup_environment pw (environ w))
         else Exit EXIT_EXEC_FAIL)
      \<and> filter is_launch (snd (main w argv))
          = [Execvp cmd (cmd # args) (setup_environment pw (environ w))])
   \<and> (resolves w2 argv2 False cmd2 sid acts \<and> reaches_create w2 sid \<longrightarrow>
      wmain w2 argv2 =
        ((if create_process_ok w2 then EXIT_SUCCESS_CODE else EXIT_PROCESS_FAILURE),
         acts @ [QuerySessionInformation sid, QueryUserToken sid, DuplicateTokenEx,
                 CreateEnvironmentBlock, GetUserProfileDirectory,
                 CreateProcessAsUser (emit_args cmd2)
                   (case user_profile_directory w2 of
                      None \<Rightarrow> None
                    | Some d \<Rightarrow> if d \<noteq> [] then Some d else None)])
      \<and> filter is_observation (snd (wmain w2 argv2)) = [])"
proof -
  have mac: "fst (main w argv) =
        (if execvp_ok w then Replaced cmd (cmd # args) (setup_environment pw (environ w))
         else Exit EXIT_EXEC_FAIL)
      \<and> filter is_launch (snd (main w argv))
          = [Execvp cmd (cmd # args) (setup_environment pw (environ w))]"
    if "reaches_drop w argv False cmd args uid pw \<and> fst (drop_privileges w pw) = 0"
    using that main_reaches_drop [of w argv False cmd args uid pw]
      drop_privileges_no_launch [of w pw]
    by (simp add: after_def launch_def)
  have win: "wmain w2 argv2 =
        ((if create_process_ok w2 then EXIT_SUCCESS_CODE else EXIT_PROCESS_FAILURE),
         acts @ [QuerySessionInformation sid, QueryUserToken sid, DuplicateTokenEx,
                 CreateEnvironmentBlock, GetUserProfileDirectory,
                 CreateProcessAsUser (emit_args cmd2)
                   (case user_profile_directory w2 of
                      None \<Rightarrow> None
                    | Some d \<Rightarrow> if d \<noteq> [] then Some d else None)])
      \<and> filter is_observation (snd (wmain w2 argv2)) = []"
    if h: "resolves w2 argv2 False cmd2 sid acts \<and> reaches_create w2 sid"
  proof -
    have d: "filter is_observation acts = []"
      using h find_active_session_discovery [of w2]
      by (auto simp: resolves_def find_active_session_def
               split: win_parsed.splits option.splits if_splits)
    show ?thesis
      using h d wmain_resolves [of w2 argv2 False cmd2 sid acts]
        run_session_created [of w2 sid False cmd2]
      by (simp add: after_def Let_def)
  qed
  show ?thesis using mac win by blast
qed

theorem non_waiting_launch_witness:
  "fst (main mac_example [''runasuser'', ''id''])
     = Replaced ''id'' [''id''] (setup_environment alice (environ mac_example))
   \<and> fst (main (mac_example\<lparr>execvp_ok := False\<rparr>) [''runasuser'', ''id'']) = Exit 4
   \<and> fst (wmain win_example [L ''runasuser'', L ''whoami'']) = 0
   \<and> fst (wmain (win_example\<lparr>create_process_ok := False\<rparr>) [L ''runasuser'', L ''whoami'']) = 4
   \<and> filter is_observation (snd (wmain win_example [L ''runasuser'', L ''whoami''])) = []"
proof -
  have r: "reaches_drop mac_example [''runasuser'', ''id''] False ''id'' [] 501 alice
      \<and> reaches_drop (mac_example\<lparr>execvp_ok := False\<rparr>) [''runasuser'', ''id''] False ''id'' [] 501 alice"
    by (simp add: reaches_drop_def mac_example_def)
  have d: "fst (drop_privileges mac_example alice) = 0
      \<and> fst (drop_privileges (mac_example\<lparr>execvp_ok := False\<rparr>) alice) = 0
      \<and> execvp_ok mac_example \<and> environ (mac_example\<lparr>execvp_ok := False\<rparr>) = environ mac_example"
    by (simp add: drop_privileges_def mac_example_def)
  have s: "resolves win_example [L ''runasuser'', L ''whoami''] False [L ''whoami''] 1
             [GetActiveConsoleSessionId]
      \<and> resolves (win_example\<lparr>create_process_ok := False\<rparr>) [L ''runasuser'', L ''whoami'']
           False [L ''whoami''] 1 [GetActiveConsoleSessionId]"
    by (simp add: resolves_def L_def find_active_session_def win_example_def)
  have c: "reaches_create win_example 1
      \<and> reaches_create (win_example\<lparr>create_process_ok := False\<rparr>) 1
      \<and> create_process_ok win_example"
    by (simp add: reaches_create_def win_example_def)
  show ?thesis
    using r d s c
      non_waiting_launch [of mac_example "[''runasuser'', ''id'']" "''id''" "[]" 501 alice
        win_example "[L ''runasuser'', L ''whoami'']" "[L ''whoami'']" 1 "[GetActiveConsoleSessionId]"]
      non_waiting_launch [of "mac_example\<lparr>execvp_ok := False\<rparr>" "[''runasuser'', ''id'']"
        "''id''" "[]" 501 alice
        "win_example\<lparr>create_process_ok := False\<rparr>" "[L ''runasuser'', L ''whoami'']"
        "[L ''whoami'']" 1 "[GetActiveConsoleSessionId]"]
    by simp
qed


subsection \<open>The explicit session target\<close>

lemma digit_not_space: "iswdigit c \<Longrightarrow> \<not> iswspace c \<and> c \<noteq> MINUS \<and> c \<noteq> PLUS"
  by (auto simp: iswdigit_def iswspace_def word_le_nat_alt)

lemma sign_not_space: "\<not> iswspace MINUS \<and> \<not> iswspace PLUS"
  by (simp add: iswspace_def)

lemma takeWhile_all: "list_all P xs \<Longrightarrow> takeWhile P xs = xs"
  by (induction xs) simp_all

lemma takeWhile_prefix:
  "list_all P xs \<Longrightarrow> ys = [] \<or> \<not> P (hd ys) \<Longrightarrow> takeWhile P (xs @ ys) = xs"
  by (induction xs) (cases ys; simp)+

lemma dropWhile_prefix:
  "list_all P xs \<Longrightarrow> ys = [] \<or> \<not> P (hd ys) \<Longrightarrow> dropWhile P (xs @ ys) = ys"
  by (induction xs) (cases ys; simp)+

lemma wcstoul_numeric:
  assumes ws: "list_all iswspace ws"
    and sg: "sign = [] \<or> sign = [PLUS] \<or> sign = [MINUS]"
    and ne: "ds \<noteq> []" and dg: "list_all iswdigit ds"
  shows "wcstoul (ws @ sign @ ds) =
           ((if ULONG_MAX < digits_value 0 ds then of_nat ULONG_MAX
             else if sign = [MINUS] then - of_nat (digits_value 0 ds)
             else of_nat (digits_value 0 ds)),
            length (ws @ sign @ ds))"
proof -
  obtain d ds' where ds: "ds = d # ds'" using ne by (cases ds) auto
  have d: "iswdigit d" using dg ds by simp
  have h: "\<not> iswspace (hd (sign @ ds))"
    using sg d digit_not_space [of d] sign_not_space by (auto simp: ds)
  have tw: "takeWhile iswspace (ws @ sign @ ds) = ws"
    using takeWhile_prefix [OF ws, of "sign @ ds"] h by simp
  have dw: "dropWhile iswspace (ws @ sign @ ds) = sign @ ds"
    using dropWhile_prefix [OF ws, of "sign @ ds"] h by simp
  have td: "takeWhile iswdigit ds = ds" using dg by (rule takeWhile_all)
  have hd_ds: "hd ds \<noteq> MINUS \<and> hd ds \<noteq> PLUS"
    using d digit_not_space [of d] by (simp add: ds)
  have hs: "(sign @ ds \<noteq> [] \<and> (hd (sign @ ds) = MINUS \<or> hd (sign @ ds) = PLUS)) = (sign \<noteq> [])"
    using sg hd_ds ne by auto
  have ng: "(sign @ ds \<noteq> [] \<and> hd (sign @ ds) = MINUS) = (sign = [MINUS])"
    using sg hd_ds ne by auto
  have r2: "(if sign \<noteq> [] then tl (sign @ ds) else sign @ ds) = ds"
    using sg by auto
  have len: "length ws + (if sign \<noteq> [] then 1 else 0) + length ds = length (ws @ sign @ ds)"
    using sg by auto
  have "wcstoul (ws @ sign @ ds) =
          (if ds = [] then (0, 0)
           else ((if ULONG_MAX < digits_value 0 ds then of_nat ULONG_MAX
                  else if sign = [MINUS] then - of_nat (digits_value 0 ds)
                  else of_nat (digits_value 0 ds)),
                 length ws + (if sign \<noteq> [] then 1 else 0) + length ds))"
    unfolding wcstoul_def Let_def tw dw hs ng r2 td ..
  then show ?thesis using ne len by simp
qed

lemma parse_session_id_numeric:
  assumes "list_all iswspace ws" and "sign = [] \<or> sign = [PLUS] \<or> sign = [MINUS]"
    and "ds \<noteq> []" and "list_all iswdigit ds"
  shows "parse_session_id (ws @ sign @ ds) =
           Some (if ULONG_MAX < digits_value 0 ds then of_nat ULONG_MAX
                 else if sign = [MINUS] then - of_nat (digits_value 0 ds)
                 else of_nat (digits_value 0 ds))"
  using wcstoul_numeric [OF assms] assms(3)
  by (simp add: parse_session_id_def Let_def)

lemma parse_session_id_form:
  assumes "parse_session_id v = Some sid"
  shows "\<exists>ws sign ds. v = ws @ sign @ ds \<and> list_all iswspace ws
           \<and> (sign = [] \<or> sign = [PLUS] \<or> sign = [MINUS])
           \<and> ds \<noteq> [] \<and> list_all iswdigit ds"
proof -
  define ws where "ws = takeWhile iswspace v"
  define r1 where "r1 = dropWhile iswspace v"
  define has_sign where "has_sign = (r1 \<noteq> [] \<and> (hd r1 = MINUS \<or> hd r1 = PLUS))"
  define sign where "sign = (if has_sign then [hd r1] else [])"
  define r2 where "r2 = (if has_sign then tl r1 else r1)"
  define ds where "ds = takeWhile iswdigit r2"
  have v: "v = ws @ r1" by (simp add: ws_def r1_def)
  have r1: "r1 = sign @ r2" by (auto simp: sign_def r2_def has_sign_def)
  have w: "wcstoul v = (if ds = [] then (0, 0)
            else ((if ULONG_MAX < digits_value 0 ds then of_nat ULONG_MAX
                   else if r1 \<noteq> [] \<and> hd r1 = MINUS then - of_nat (digits_value 0 ds)
                   else of_nat (digits_value 0 ds)),
                  length ws + (if has_sign then 1 else 0) + length ds))"
    by (simp add: wcstoul_def Let_def ws_def r1_def has_sign_def r2_def ds_def)
  have ne: "ds \<noteq> []"
    using assms w by (auto simp: parse_session_id_def Let_def split: if_splits)
  have "\<not> length ws + (if has_sign then 1 else 0) + length ds < length v"
    using assms w ne by (auto simp: parse_session_id_def Let_def split: if_splits)
  then have "length r2 \<le> length ds"
    using v r1 by (auto simp: sign_def split: if_splits)
  moreover have "ds = take (length ds) r2"
    unfolding ds_def by (rule takeWhile_eq_take)
  ultimately have "ds = r2" by (metis take_all)
  moreover have "list_all iswspace ws"
    by (auto simp: ws_def list_all_iff dest: set_takeWhileD)
  moreover have "list_all iswdigit ds"
    by (auto simp: ds_def list_all_iff dest: set_takeWhileD)
  moreover have "sign = [] \<or> sign = [PLUS] \<or> sign = [MINUS]"
    by (auto simp: sign_def has_sign_def)
  ultimately show ?thesis using v r1 ne by blast
qed

lemma parse_session_id_None_iff:
  "parse_session_id v = None \<longleftrightarrow>
     \<not> (\<exists>ws sign ds. v = ws @ sign @ ds \<and> list_all iswspace ws
           \<and> (sign = [] \<or> sign = [PLUS] \<or> sign = [MINUS])
           \<and> ds \<noteq> [] \<and> list_all iswdigit ds)"
proof
  assume n: "parse_session_id v = None"
  show "\<not> (\<exists>ws sign ds. v = ws @ sign @ ds \<and> list_all iswspace ws
           \<and> (sign = [] \<or> sign = [PLUS] \<or> sign = [MINUS])
           \<and> ds \<noteq> [] \<and> list_all iswdigit ds)"
  proof
    assume "\<exists>ws sign ds. v = ws @ sign @ ds \<and> list_all iswspace ws
           \<and> (sign = [] \<or> sign = [PLUS] \<or> sign = [MINUS])
           \<and> ds \<noteq> [] \<and> list_all iswdigit ds"
    then obtain ws sign ds where "v = ws @ sign @ ds" "list_all iswspace ws"
      "sign = [] \<or> sign = [PLUS] \<or> sign = [MINUS]" "ds \<noteq> []" "list_all iswdigit ds"
      by blast
    then show False using n parse_session_id_numeric [of ws sign ds] by simp
  qed
next
  assume "\<not> (\<exists>ws sign ds. v = ws @ sign @ ds \<and> list_all iswspace ws
           \<and> (sign = [] \<or> sign = [PLUS] \<or> sign = [MINUS])
           \<and> ds \<noteq> [] \<and> list_all iswdigit ds)"
  then show "parse_session_id v = None"
    using parse_session_id_form [of v] by (cases "parse_session_id v") auto
qed

lemma L_flags_distinct:
  "L ''--session'' \<noteq> L ''--wait''"
  by (simp add: L_def)

lemma win_parse_flags_session:
  "win_parse_flags waitForChild session (L ''--session'' # v # rest) =
     (case parse_session_id v of
        None \<Rightarrow> WUsage
      | Some val \<Rightarrow> win_parse_flags waitForChild (Some val) rest)"
  by (simp add: L_flags_distinct)

lemma run_session_calls:
  "filter is_discovery (snd (run_session w waitForChild sid cmd)) = []
   \<and> take 2 (snd (run_session w waitForChild sid cmd))
       = [QuerySessionInformation sid, QueryUserToken sid]"
  by (simp add: run_session_def Let_def build_command_line_def split: option.splits)

lemma wmain_session_refused:
  "parse_session_id v = None \<Longrightarrow>
   wmain w (prog # L ''--session'' # v # rest) = (EXIT_USAGE_ERROR, [])"
  by (simp add: wmain_def win_parse_flags_session del: win_parse_flags.simps)

lemma wmain_session_missing:
  "wmain w [prog, L ''--session''] = (EXIT_USAGE_ERROR, [])"
  by (simp add: wmain_def L_flags_distinct)


text \<open>
  Claim C8, as stated, fails: no explicit target makes \<^verbatim>\<open>wmain\<close> return 2. A number
  that names no session with a token (here 99) gives 3, and a target that is not a
  number gives 5.
\<close>

theorem explicit_session_counterexample:
  "wmain win_example [L ''runasuser'', L ''--session'', L ''99'', L ''whoami'']
     = (EXIT_TOKEN_FAILURE, [QuerySessionInformation 99, QueryUserToken 99])
   \<and> wmain win_example [L ''runasuser'', L ''--session'', L ''abc'', L ''whoami'']
     = (EXIT_USAGE_ERROR, [])"
  by (simp add: wmain_def win_example_def run_session_def L_def parse_session_id_def
        wcstoul_def iswspace_def iswdigit_def ULONG_MAX_def)


text \<open>
  Claim C8, amended. With \<^verbatim>\<open>--session\<close> and a target that is accepted, \<^verbatim>\<open>wmain\<close> makes
  no discovery call and begins with the queries for that very session; when the
  token query for it fails, \<^verbatim>\<open>wmain\<close> returns 3 after these two calls. A target that
  is refused, or \<^verbatim>\<open>--session\<close> as the last argument, makes \<^verbatim>\<open>wmain\<close> return 5 with no
  call made.
\<close>

theorem explicit_session_target:
  "(win_parse_flags False None (drop 1 argv) = WCommand waitForChild (Some sid) cmd \<longrightarrow>
      wmain w argv = run_session w waitForChild sid cmd
      \<and> filter is_discovery (snd (wmain w argv)) = []
      \<and> take 2 (snd (wmain w argv)) = [QuerySessionInformation sid, QueryUserToken sid])
   \<and> (win_parse_flags False None (drop 1 argv) = WCommand waitForChild (Some sid) cmd
      \<and> query_user_token w sid = Some err \<longrightarrow>
      wmain w argv = (EXIT_TOKEN_FAILURE, [QuerySessionInformation sid, QueryUserToken sid]))
   \<and> (parse_session_id v = None \<longrightarrow>
      wmain w2 (prog # L ''--session'' # v # rest) = (EXIT_USAGE_ERROR, []))
   \<and> wmain w2 [prog, L ''--session''] = (EXIT_USAGE_ERROR, [])"
proof -
  have direct: "wmain w argv = run_session w waitForChild sid cmd"
    if "win_parse_flags False None (drop 1 argv) = WCommand waitForChild (Some sid) cmd"
    using that by (simp add: wmain_def)
  show ?thesis
    using direct run_session_calls [of w waitForChild sid cmd]
      run_session_token_failure [of w sid err waitForChild cmd]
      wmain_session_refused [of v w2 prog rest] wmain_session_missing [of w2 prog]
    by simp
qed

theorem explicit_session_target_witness:
  "wmain win_example [L ''runasuser'', L ''--session'', L ''99'', L ''whoami'']
     = (3, [QuerySessionInformation 99, QueryUserToken 99])
   \<and> filter is_discovery
       (snd (wmain win_example [L ''runasuser'', L ''--session'', L ''99'', L ''whoami''])) = []
   \<and> wmain win_example [L ''runasuser'', L ''--session'', L ''2x'', L ''whoami''] = (5, [])"
proof -
  have p: "win_parse_flags False None
             (drop 1 [L ''runasuser'', L ''--session'', L ''99'', L ''whoami''])
           = WCommand False (Some 99) [L ''whoami'']"
    by (simp add: L_def parse_session_id_def wcstoul_def iswspace_def iswdigit_def ULONG_MAX_def)
  have q: "query_user_token win_example 99 = Some 2"
    by (simp add: win_example_def)
  have n: "parse_session_id (L ''2x'') = None"
    by (simp add: L_def parse_session_id_def wcstoul_def iswspace_def iswdigit_def Let_def)
  note t = explicit_session_target [of "[L ''runasuser'', L ''--session'', L ''99'', L ''whoami'']"
        False 99 "[L ''whoami'']" win_example 2 "L ''2x''" win_example "L ''runasuser''"
        "[L ''whoami'']"]
  from t p q have 1: "wmain win_example [L ''runasuser'', L ''--session'', L ''99'', L ''whoami'']
     = (3, [QuerySessionInformation 99, QueryUserToken 99])"
    by blast
  from t p have 2: "filter is_discovery
       (snd (wmain win_example [L ''runasuser'', L ''--session'', L ''99'', L ''whoami''])) = []"
    by blast
  from t n have 3: "wmain win_example [L ''runasuser'', L ''--session'', L ''2x'', L ''whoami'']
     = (5, [])"
    by blast
  show ?thesis using 1 2 3 by blast
qed


text \<open>
  Claim C10. The argument \<^verbatim>\<open>-1\<close> of \<^verbatim>\<open>--session\<close> is accepted and gives the session
  identifier 4294967295, which \<^verbatim>\<open>wmain\<close> then targets. Every string made of white
  space, an optional sign and at least one digit is accepted; a magnitude above
  \<^verbatim>\<open>ULONG_MAX\<close> gives 4294967295, a minus sign negates modulo \<open>2\<^sup>3\<^sup>2\<close>. A string is
  refused exactly when it is not of that form, and a refused string makes \<^verbatim>\<open>wmain\<close>
  return 5.
\<close>

theorem session_id_parsing:
  "parse_session_id (L ''-1'') = Some 4294967295
   \<and> (list_all iswspace ws \<and> (sign = [] \<or> sign = [PLUS] \<or> sign = [MINUS])
        \<and> ds \<noteq> [] \<and> list_all iswdigit ds \<longrightarrow>
        parse_session_id (ws @ sign @ ds) =
          Some (if ULONG_MAX < digits_value 0 ds then 4294967295
                else if sign = [MINUS] then - of_nat (digits_value 0 ds)
                else of_nat (digits_value 0 ds)))
   \<and> (parse_session_id v = None \<longleftrightarrow>
        \<not> (\<exists>ws sign ds. v = ws @ sign @ ds \<and> list_all iswspace ws
              \<and> (sign = [] \<or> sign = [PLUS] \<or> sign = [MINUS])
              \<and> ds \<noteq> [] \<and> list_all iswdigit ds))
   \<and> win_parse_flags waitForChild session (L ''--session'' # v # rest) =
        (case parse_session_id v of
           None \<Rightarrow> WUsage
         | Some val \<Rightarrow> win_parse_flags waitForChild (Some val) rest)
   \<and> (parse_session_id v = None \<longrightarrow>
        wmain w (prog # L ''--session'' # v # rest) = (EXIT_USAGE_ERROR, []))
   \<and> wmain w [prog, L ''--session'', L ''-1'', L ''whoami'']
       = run_session w False 4294967295 [L ''whoami'']"
proof -
  have m1: "parse_session_id (L ''-1'') = Some 4294967295"
    by (simp add: L_def parse_session_id_def wcstoul_def iswspace_def iswdigit_def ULONG_MAX_def)
  have num: "parse_session_id (ws @ sign @ ds) =
          Some (if ULONG_MAX < digits_value 0 ds then 4294967295
                else if sign = [MINUS] then - of_nat (digits_value 0 ds)
                else of_nat (digits_value 0 ds))"
    if "list_all iswspace ws \<and> (sign = [] \<or> sign = [PLUS] \<or> sign = [MINUS])
        \<and> ds \<noteq> [] \<and> list_all iswdigit ds"
    using that parse_session_id_numeric [of ws sign ds] by (simp add: ULONG_MAX_def)
  have run: "wmain w [prog, L ''--session'', L ''-1'', L ''whoami'']
       = run_session w False 4294967295 [L ''whoami'']"
    using m1 by (simp add: wmain_def win_parse_flags_session del: win_parse_flags.simps)
      (simp add: L_def)
  show ?thesis
    using m1 num run parse_session_id_None_iff [of v]
      win_parse_flags_session [of waitForChild session v rest]
      wmain_session_refused [of v w prog rest]
    by blast
qed

theorem session_id_parsing_witness:
  "parse_session_id (L '' +42'') = Some 42
   \<and> parse_session_id (L ''4294967296'') = Some 4294967295
   \<and> parse_session_id (L ''-2'') = Some 4294967294
   \<and> wmain win_example [L ''runasuser'', L ''--session'', L ''12abc'', L ''whoami''] = (5, [])"
proof -
  have a: "list_all iswspace (L '' '') \<and> list_all iswdigit (L ''42'') \<and> L ''42'' \<noteq> []
      \<and> digits_value 0 (L ''42'') = 42 \<and> L '' +42'' = L '' '' @ [PLUS] @ L ''42''"
    by (simp add: L_def iswspace_def iswdigit_def)
  have b: "list_all iswspace [] \<and> list_all iswdigit (L ''4294967296'') \<and> L ''4294967296'' \<noteq> []
      \<and> digits_value 0 (L ''4294967296'') = 4294967296"
    by (simp add: L_def iswdigit_def)
  have c: "list_all iswdigit (L ''2'') \<and> L ''2'' \<noteq> [] \<and> digits_value 0 (L ''2'') = 2
      \<and> L ''-2'' = [MINUS] @ L ''2''"
    by (simp add: L_def iswdigit_def)
  have n: "parse_session_id (L ''12abc'') = None"
    by (simp add: L_def parse_session_id_def wcstoul_def iswspace_def iswdigit_def Let_def)
  show ?thesis
    using a b c n
      session_id_parsing [of "L '' ''" "[PLUS]" "L ''42''" "L ''12abc''" False None "[L ''whoami'']"
        win_example "L ''runasuser''"]
      session_id_parsing [of "[]" "[]" "L ''4294967296''" "L ''12abc''" False None "[L ''whoami'']"
        win_example "L ''runasuser''"]
      session_id_parsing [of "[]" "[MINUS]" "L ''2''" "L ''12abc''" False None "[L ''whoami'']"
        win_example "L ''runasuser''"]
    by (simp add: ULONG_MAX_def)
qed

end
